theory Spec2Isabelle
  imports Complex_Main
begin

section \<open>The retrying agent dispatcher of \<^verbatim>\<open>services/agent_service.py\<close>\<close>

text \<open>
  The module keeps one lazily created thread pool, submits the blocking agent call to
  it, waits for the future under a timeout and retries with exponential backoff and
  jitter. The embedding follows the module function by function.

  Conventions of the embedding:
  \<^item> A Python \<^verbatim>\<open>float\<close> is a real number, and every float operation rounds its exact
    result with the rounding function of the runtime, a parameter. The conversion of
    an integer that is too large for a float raises \<^verbatim>\<open>OverflowError\<close>. Infinities and
    NaN are outside the embedding.
  \<^item> The attempt index comes from \<^verbatim>\<open>range(0, max_retries + 1)\<close> and is a natural number.
  \<^item> The external agent and the random source are parameters: the agent's behaviour on
    each attempt, one draw of \<^verbatim>\<open>random.random()\<close> per attempt.
  \<^item> Every call with an effect on the outside (pool creation and shutdown, an accepted
    submission, a wait on a future, a sleep) is appended to a trace kept in the state.
  \<^item> Logging is not modelled; \<^verbatim>\<open>last_exc\<close> only feeds the log and is left out with it.
    The exceptions of the embedding print without raising, as the log calls need.
  \<^item> A submitted task starts at once: which threads of the pool are busy is not
    followed, and a statement that depends on it is made for jobs that cannot fill
    the pool. One job runs at a time, and a pool shut down by another thread while a
    job is in flight is outside the embedding.
\<close>

subsection \<open>Exceptions\<close>

text \<open>
  \<^verbatim>\<open>TimeoutError\<close> stands for \<^verbatim>\<open>concurrent.futures.TimeoutError\<close> and
  \<^verbatim>\<open>asyncio.TimeoutError\<close>. \<^verbatim>\<open>FuturesCancelledError\<close> is
  \<^verbatim>\<open>concurrent.futures.CancelledError\<close>, a class below \<^verbatim>\<open>Exception\<close>;
  \<^verbatim>\<open>AsyncioCancelledError\<close> is \<^verbatim>\<open>asyncio.CancelledError\<close>, a class below
  \<^verbatim>\<open>BaseException\<close> only. \<^verbatim>\<open>OtherException\<close> is any other class below
  \<^verbatim>\<open>Exception\<close>; \<^verbatim>\<open>NonException\<close> is any other class below \<^verbatim>\<open>BaseException\<close> only
  (\<^verbatim>\<open>SystemExit\<close>, \<^verbatim>\<open>KeyboardInterrupt\<close>, \<^verbatim>\<open>GeneratorExit\<close>), named by the string.
\<close>

datatype py_exc =
    TimeoutError
  | ValueError string
  | RuntimeError string
  | OverflowError string
  | FuturesCancelledError
  | OtherException string
  | AsyncioCancelledError
  | NonException string

fun is_TimeoutError :: "py_exc \<Rightarrow> bool" where
  "is_TimeoutError TimeoutError = True"
| "is_TimeoutError _ = False"

fun is_Exception :: "py_exc \<Rightarrow> bool" where
  "is_Exception AsyncioCancelledError = False"
| "is_Exception (NonException _) = False"
| "is_Exception _ = True"

text \<open>What a call does: it never comes back, it raises, or it returns a value.\<close>

datatype 'a outcome = Hangs | Raises py_exc | Returns 'a

subsection \<open>The runtime\<close>

text \<open>
  What the embedding takes from the Python runtime: the rounding of a real to the
  nearest float; \<^verbatim>\<open>threading.TIMEOUT_MAX\<close>, the longest wait a lock accepts; and the
  longest sleep \<^verbatim>\<open>time.sleep\<close> accepts.
\<close>

record python_runtime =
  fround :: "real \<Rightarrow> real"
  timeout_max :: real
  sleep_max :: real

definition fadd :: "python_runtime \<Rightarrow> real \<Rightarrow> real \<Rightarrow> real" where
  "fadd rt x y = fround rt (x + y)"

definition fsub :: "python_runtime \<Rightarrow> real \<Rightarrow> real \<Rightarrow> real" where
  "fsub rt x y = fround rt (x - y)"

definition fmul :: "python_runtime \<Rightarrow> real \<Rightarrow> real \<Rightarrow> real" where
  "fmul rt x y = fround rt (x * y)"

text \<open>
  A rounding is monotone, leaves a float as it is, and 0 is a float. A value is a float
  when rounding leaves it as it is.
\<close>

definition rounding :: "(real \<Rightarrow> real) \<Rightarrow> bool" where
  "rounding r = (mono r \<and> (\<forall>x. r (r x) = r x) \<and> r 0 = 0)"

definition is_float :: "python_runtime \<Rightarrow> real \<Rightarrow> bool" where
  "is_float rt x = (fround rt x = x)"

text \<open>
  \<^verbatim>\<open>2**attempt\<close> is an integer; in \<^verbatim>\<open>base * (2**attempt)\<close> it is converted to a float,
  and from \<^verbatim>\<open>2**1024\<close> on the conversion raises \<^verbatim>\<open>OverflowError\<close>.
\<close>

definition int_too_large :: py_exc where
  "int_too_large = OverflowError ''int too large to convert to float''"

definition pow2_as_float :: "python_runtime \<Rightarrow> nat \<Rightarrow> py_exc + real" where
  "pow2_as_float rt attempt =
     (if 1024 \<le> attempt then Inl int_too_large else Inr (fround rt (2 ^ attempt)))"

subsection \<open>The agent's response and \<^verbatim>\<open>_extract_final_text\<close>\<close>

text \<open>
  A content block is a dict from keys to values; the value under \<^verbatim>\<open>"text"\<close> is a
  string. A message is a dict whose \<^verbatim>\<open>"content"\<close> entry, when present, is the
  ordered list of blocks. The response is falsy (\<^verbatim>\<open>None\<close>), or an object without a
  \<^verbatim>\<open>message\<close> attribute, or an object with one.
\<close>

type_synonym block = "string \<rightharpoonup> string"

record message =
  role :: "string option"
  content :: "block list option"

datatype agent_result = Falsy | Without_message | With_message message

text \<open>
  The \<^verbatim>\<open>for block in content_list\<close> loop: the first block with a \<^verbatim>\<open>"text"\<close> key
  sets \<^verbatim>\<open>final_response_text\<close> and breaks; without one the variable keeps its value.
\<close>

fun scan_blocks :: "block list \<Rightarrow> string \<Rightarrow> string" where
  "scan_blocks [] final_response_text = final_response_text"
| "scan_blocks (block # rest) final_response_text =
     (case block ''text'' of
        Some t \<Rightarrow> t
      | None \<Rightarrow> scan_blocks rest final_response_text)"

definition extraction_error :: py_exc where
  "extraction_error = ValueError ''Could not extract 'message.content[0].text' from response.''"

definition extract_final_text :: "agent_result \<Rightarrow> py_exc + string" where
  "extract_final_text agent_response =
     (let final_response_text =
        (case agent_response of
           With_message message_dict \<Rightarrow>
             (case content message_dict of
                Some content_list \<Rightarrow> scan_blocks content_list ''''
              | None \<Rightarrow> '''')
         | _ \<Rightarrow> '''')
      in if final_response_text = '''' then Inl extraction_error
         else Inr final_response_text)"

text \<open>
  The extractor as the specification words it: the first block that carries a
  non-empty text, if there is one.
\<close>

fun spec_first_nonempty_text :: "block list \<Rightarrow> string option" where
  "spec_first_nonempty_text [] = None"
| "spec_first_nonempty_text (block # rest) =
     (case block ''text'' of
        Some t \<Rightarrow> (if t \<noteq> '''' then Some t else spec_first_nonempty_text rest)
      | None \<Rightarrow> spec_first_nonempty_text rest)"

definition spec_extract :: "agent_result \<Rightarrow> py_exc + string" where
  "spec_extract agent_response =
     (case agent_response of
        With_message message_dict \<Rightarrow>
          (case content message_dict of
             Some content_list \<Rightarrow>
               (case spec_first_nonempty_text content_list of
                  Some t \<Rightarrow> Inr t
                | None \<Rightarrow> Inl extraction_error)
           | None \<Rightarrow> Inl extraction_error)
      | _ \<Rightarrow> Inl extraction_error)"

text \<open>The block \<^verbatim>\<open>{"text": t}\<close>.\<close>

definition text_block :: "string \<Rightarrow> block" where
  "text_block t = [''text'' \<mapsto> t]"

definition empty_then_hello :: agent_result where
  "empty_then_hello =
     With_message \<lparr>role = Some ''assistant'',
       content = Some [text_block '''', text_block ''hello'']\<rparr>"

subsection \<open>Settings\<close>

text \<open>The reliability fields of \<^verbatim>\<open>config.settings.Settings\<close>, with their defaults.\<close>

record settings =
  agent_max_retries :: int
  agent_retry_backoff_base_sec :: real
  agent_retry_backoff_max_sec :: real
  agent_call_timeout_sec :: real

definition default_settings :: settings where
  "default_settings =
     \<lparr>agent_max_retries = 2,
      agent_retry_backoff_base_sec = 0.5,
      agent_retry_backoff_max_sec = 5.0,
      agent_call_timeout_sec = 45.0\<rparr>"

subsection \<open>\<^verbatim>\<open>_compute_backoff_delay\<close>\<close>

text \<open>
  \<^verbatim>\<open>random.uniform(a, b)\<close> is \<^verbatim>\<open>a + (b - a) * random()\<close>, where \<^verbatim>\<open>random()\<close> draws
  from the half-open unit interval; the draw is the parameter \<open>u\<close>.
\<close>

definition uniform :: "python_runtime \<Rightarrow> real \<Rightarrow> real \<Rightarrow> real \<Rightarrow> real" where
  "uniform rt a b u = fadd rt a (fmul rt (fsub rt b a) u)"

text \<open>The raw delay \<^verbatim>\<open>min(maxb, base * (2**attempt))\<close>, given the converted power.\<close>

definition raw_delay :: "python_runtime \<Rightarrow> settings \<Rightarrow> real \<Rightarrow> real" where
  "raw_delay rt cfg p =
     min (agent_retry_backoff_max_sec cfg) (fmul rt (agent_retry_backoff_base_sec cfg) p)"

definition compute_backoff_delay ::
  "python_runtime \<Rightarrow> settings \<Rightarrow> nat \<Rightarrow> real \<Rightarrow> py_exc + real" where
  "compute_backoff_delay rt cfg attempt u =
     (case pow2_as_float rt attempt of
        Inl e \<Rightarrow> Inl e
      | Inr p \<Rightarrow>
          (let delay = raw_delay rt cfg p;
               jitter = uniform rt 0 (fmul rt delay (fround rt 0.2)) u
           in Inr (fadd rt delay jitter)))"

subsection \<open>The thread pool and the module state\<close>

text \<open>
  A \<^verbatim>\<open>ThreadPoolExecutor\<close> has its construction arguments and the flag its
  \<^verbatim>\<open>shutdown\<close> method sets; \<^verbatim>\<open>submit\<close> raises \<^verbatim>\<open>RuntimeError\<close> on a pool that was
  shut down. The module state is the global \<^verbatim>\<open>_executor\<close> and the trace.
\<close>

record thread_pool =
  max_workers :: nat
  thread_name_prefix :: string
  shut_down :: bool

datatype event =
    Pool_created thread_pool
  | Pool_shutdown bool bool
  | Submitted string string string
  | Awaited "real option"
  | Sleep real

record module_state =
  executor :: "thread_pool option"
  trace :: "event list"

definition initial_state :: module_state where
  "initial_state = \<lparr>executor = None, trace = []\<rparr>"

definition log_event :: "event \<Rightarrow> module_state \<Rightarrow> module_state" where
  "log_event ev s = s\<lparr>trace := trace s @ [ev]\<rparr>"

definition ThreadPoolExecutor :: "nat \<Rightarrow> string \<Rightarrow> thread_pool" where
  "ThreadPoolExecutor n prefix =
     \<lparr>max_workers = n, thread_name_prefix = prefix, shut_down = False\<rparr>"

definition get_executor :: "module_state \<Rightarrow> thread_pool \<times> module_state" where
  "get_executor s =
     (case executor s of
        None \<Rightarrow>
          (let pool = ThreadPoolExecutor 4 ''agent-worker''
           in (pool, log_event (Pool_created pool) (s\<lparr>executor := Some pool\<rparr>)))
      | Some pool \<Rightarrow> (pool, s))"

text \<open>
  \<^verbatim>\<open>shutdown_executor\<close>: the two statements under the \<^verbatim>\<open>if\<close>, in order. The pool
  object is marked shut down, then the global drops it.
\<close>

definition pool_shutdown :: "bool \<Rightarrow> bool \<Rightarrow> thread_pool \<Rightarrow> thread_pool" where
  "pool_shutdown wait cancel_futures pool = pool\<lparr>shut_down := True\<rparr>"

definition shutdown_executor :: "bool \<Rightarrow> module_state \<Rightarrow> module_state" where
  "shutdown_executor wait s =
     (case executor s of
        Some pool \<Rightarrow>
          (let s1 = log_event (Pool_shutdown wait True)
                      (s\<lparr>executor := Some (pool_shutdown wait True pool)\<rparr>)
           in s1\<lparr>executor := None\<rparr>)
      | None \<Rightarrow> s)"

subsection \<open>The worker task\<close>

text \<open>
  What \<^verbatim>\<open>default_agent(chat_id, model_id)(input_text)\<close> does on one call: it returns a
  response or raises after some seconds, or it never comes back. An agent is a
  function of the call's arguments; a world gives the agent met on each attempt.
\<close>

datatype agent_behaviour =
    Agent_returns real agent_result
  | Agent_raises real py_exc
  | Agent_hangs

type_synonym agent = "string \<Rightarrow> string \<Rightarrow> string \<Rightarrow> agent_behaviour"
type_synonym world = "nat \<Rightarrow> agent"

text \<open>A run of the submitted task: when it finishes, and with what.\<close>

datatype task_run = Finishes real "py_exc + string" | Never_finishes

definition call_agent_blocking :: "agent \<Rightarrow> string \<Rightarrow> string \<Rightarrow> string \<Rightarrow> task_run" where
  "call_agent_blocking default_agent chat_id input_text model_id =
     (case default_agent chat_id model_id input_text of
        Agent_returns d agent_response \<Rightarrow> Finishes d (extract_final_text agent_response)
      | Agent_raises d e \<Rightarrow> Finishes d (Inl e)
      | Agent_hangs \<Rightarrow> Never_finishes)"

text \<open>
  \<^verbatim>\<open>executor.submit(_call_agent_blocking, chat_id, input_text, model_id)\<close>: the future
  of the task, or \<^verbatim>\<open>RuntimeError\<close> from a pool that was shut down.
\<close>

definition pool_closed :: py_exc where
  "pool_closed = RuntimeError ''cannot schedule new futures after shutdown''"

definition submit ::
  "thread_pool \<Rightarrow> agent \<Rightarrow> string \<Rightarrow> string \<Rightarrow> string \<Rightarrow> module_state
     \<Rightarrow> (py_exc + task_run) \<times> module_state" where
  "submit pool default_agent chat_id input_text model_id s =
     (if shut_down pool then (Inl pool_closed, s)
      else (Inr (call_agent_blocking default_agent chat_id input_text model_id),
            log_event (Submitted chat_id input_text model_id) s))"

text \<open>
  \<^verbatim>\<open>Future.result(timeout)\<close>: without a timeout the wait has no limit. With one, the
  wait on the future's condition raises \<^verbatim>\<open>OverflowError\<close> when the timeout is above
  \<^verbatim>\<open>threading.TIMEOUT_MAX\<close> (the task being still at work when the wait starts), and
  a task not finished in time gives \<^verbatim>\<open>TimeoutError\<close>. A finished task gives its
  value or re-raises its exception, of whatever class.
\<close>

fun completed :: "py_exc + string \<Rightarrow> string outcome" where
  "completed (Inl e) = Raises e"
| "completed (Inr v) = Returns v"

definition timeout_too_large :: py_exc where
  "timeout_too_large = OverflowError ''timeout value is too large''"

fun future_result :: "python_runtime \<Rightarrow> real option \<Rightarrow> task_run \<Rightarrow> string outcome" where
  "future_result rt None Never_finishes = Hangs"
| "future_result rt None (Finishes d r) = completed r"
| "future_result rt (Some t) Never_finishes =
     (if timeout_max rt < t then Raises timeout_too_large else Raises TimeoutError)"
| "future_result rt (Some t) (Finishes d r) =
     (if timeout_max rt < t then Raises timeout_too_large
      else if d \<le> t then completed r else Raises TimeoutError)"

text \<open>
  \<^verbatim>\<open>asyncio.wait_for(fut, timeout)\<close> on the future of \<^verbatim>\<open>loop.run_in_executor\<close>: the
  timeout is a timer of the event loop, with no upper limit. The task's outcome
  reaches the awaiting coroutine through \<^verbatim>\<open>asyncio.wrap_future\<close>, which turns a
  \<^verbatim>\<open>concurrent.futures.CancelledError\<close> of the task into \<^verbatim>\<open>asyncio.CancelledError\<close>.
\<close>

fun convert_future_exc :: "py_exc \<Rightarrow> py_exc" where
  "convert_future_exc FuturesCancelledError = AsyncioCancelledError"
| "convert_future_exc e = e"

fun wrapped :: "py_exc + string \<Rightarrow> string outcome" where
  "wrapped (Inl e) = Raises (convert_future_exc e)"
| "wrapped (Inr v) = Returns v"

fun asyncio_wait_for :: "task_run \<Rightarrow> real option \<Rightarrow> string outcome" where
  "asyncio_wait_for Never_finishes None = Hangs"
| "asyncio_wait_for (Finishes d r) None = wrapped r"
| "asyncio_wait_for Never_finishes (Some t) = Raises TimeoutError"
| "asyncio_wait_for (Finishes d r) (Some t) = (if d \<le> t then wrapped r else Raises TimeoutError)"

text \<open>
  \<^verbatim>\<open>time.sleep\<close> raises \<^verbatim>\<open>ValueError\<close> on a negative length and \<^verbatim>\<open>OverflowError\<close> on
  one too large for its clock; \<^verbatim>\<open>asyncio.sleep\<close> returns at once on a delay that is
  not positive and has no upper limit. The trace records the call.
\<close>

definition time_sleep ::
  "python_runtime \<Rightarrow> real \<Rightarrow> module_state \<Rightarrow> py_exc option \<times> module_state" where
  "time_sleep rt secs s =
     (if secs < 0 then
        (Some (ValueError ''sleep length must be non-negative''), log_event (Sleep secs) s)
      else if sleep_max rt < secs then
        (Some (OverflowError ''timestamp too large to convert to C _PyTime_t''),
         log_event (Sleep secs) s)
      else (None, log_event (Sleep secs) s))"

definition asyncio_sleep :: "real \<Rightarrow> module_state \<Rightarrow> module_state" where
  "asyncio_sleep delay s = log_event (Sleep delay) s"

subsection \<open>\<^verbatim>\<open>process_agent_request\<close>\<close>

definition max_retries :: "settings \<Rightarrow> nat" where
  "max_retries cfg = nat (max 0 (agent_max_retries cfg))"

definition timeout_s :: "settings \<Rightarrow> real" where
  "timeout_s cfg = max 1.0 (agent_call_timeout_sec cfg)"

text \<open>The body of the \<^verbatim>\<open>try\<close>: get the pool, submit, wait for the result.\<close>

definition try_call ::
  "python_runtime \<Rightarrow> settings \<Rightarrow> agent \<Rightarrow> string \<Rightarrow> string \<Rightarrow> string \<Rightarrow> module_state
     \<Rightarrow> string outcome \<times> module_state" where
  "try_call rt cfg default_agent chat_id input_text model_id s =
     (let (pool, s1) = get_executor s
      in case submit pool default_agent chat_id input_text model_id s1 of
           (Inl e, s2) \<Rightarrow> (Raises e, s2)
         | (Inr fut, s2) \<Rightarrow>
             (future_result rt (Some (timeout_s cfg)) fut,
              log_event (Awaited (Some (timeout_s cfg))) s2))"

text \<open>
  The \<^verbatim>\<open>if attempt < max_retries\<close> block. The delay is computed outside every
  \<^verbatim>\<open>try\<close>: an exception of \<^verbatim>\<open>_compute_backoff_delay\<close> leaves the function. Then
  \<^verbatim>\<open>time.sleep\<close> under \<^verbatim>\<open>except Exception: pass\<close>. The result is the exception that
  leaves the block, if any.
\<close>

definition backoff ::
  "python_runtime \<Rightarrow> settings \<Rightarrow> (nat \<Rightarrow> real) \<Rightarrow> nat \<Rightarrow> module_state
     \<Rightarrow> py_exc option \<times> module_state" where
  "backoff rt cfg draws attempt s =
     (if attempt < max_retries cfg then
        (case compute_backoff_delay rt cfg attempt (draws attempt) of
           Inl e \<Rightarrow> (Some e, s)
         | Inr delay \<Rightarrow>
             (case time_sleep rt delay s of
                (Some e, s1) \<Rightarrow> (if is_Exception e then (None, s1) else (Some e, s1))
              | (None, s1) \<Rightarrow> (None, s1)))
      else (None, s))"

text \<open>
  The \<^verbatim>\<open>for attempt in range(0, max_retries + 1)\<close> loop over the attempts left. The
  two handlers, \<^verbatim>\<open>except FuturesTimeout\<close> and \<^verbatim>\<open>except Exception\<close>, both fall through
  to the backoff; any other exception leaves the function.
\<close>

fun retry_loop ::
  "python_runtime \<Rightarrow> settings \<Rightarrow> world \<Rightarrow> (nat \<Rightarrow> real) \<Rightarrow> string \<Rightarrow> string \<Rightarrow> string
     \<Rightarrow> nat list \<Rightarrow> module_state \<Rightarrow> string option outcome \<times> module_state" where
  "retry_loop rt cfg w draws chat_id input_text model_id [] s = (Returns None, s)"
| "retry_loop rt cfg w draws chat_id input_text model_id (attempt # rest) s =
     (case try_call rt cfg (w attempt) chat_id input_text model_id s of
        (Returns result, s1) \<Rightarrow> (Returns (Some result), s1)
      | (Hangs, s1) \<Rightarrow> (Hangs, s1)
      | (Raises e, s1) \<Rightarrow>
          (if is_TimeoutError e \<or> is_Exception e then
             (case backoff rt cfg draws attempt s1 of
                (Some e', s2) \<Rightarrow> (Raises e', s2)
              | (None, s2) \<Rightarrow> retry_loop rt cfg w draws chat_id input_text model_id rest s2)
           else (Raises e, s1)))"

text \<open>
  \<^verbatim>\<open>if not model_id\<close>: \<^verbatim>\<open>None\<close> and the empty string are falsy, and the function
  returns \<^verbatim>\<open>None\<close> before anything else.
\<close>

definition process_agent_request ::
  "python_runtime \<Rightarrow> settings \<Rightarrow> world \<Rightarrow> (nat \<Rightarrow> real) \<Rightarrow> string \<Rightarrow> string \<Rightarrow> string option
     \<Rightarrow> module_state \<Rightarrow> string option outcome \<times> module_state" where
  "process_agent_request rt cfg w draws chat_id input_text model_id s =
     (case model_id of
        None \<Rightarrow> (Returns None, s)
      | Some m \<Rightarrow>
          (if m = '''' then (Returns None, s)
           else retry_loop rt cfg w draws chat_id input_text m [0 ..< max_retries cfg + 1] s))"

subsection \<open>\<^verbatim>\<open>process_agent_request_async\<close>\<close>

text \<open>
  \<^verbatim>\<open>loop.run_in_executor(_get_executor(), partial(...))\<close> submits to the pool;
  \<^verbatim>\<open>asyncio.wait_for\<close> waits for it under the timeout. The delay is computed outside
  every \<^verbatim>\<open>try\<close>, as in the blocking entry point; the sleep is \<^verbatim>\<open>asyncio.sleep\<close>,
  outside any handler.
\<close>

definition try_call_async ::
  "settings \<Rightarrow> agent \<Rightarrow> string \<Rightarrow> string \<Rightarrow> string \<Rightarrow> module_state
     \<Rightarrow> string outcome \<times> module_state" where
  "try_call_async cfg default_agent chat_id input_text model_id s =
     (let (pool, s1) = get_executor s
      in case submit pool default_agent chat_id input_text model_id s1 of
           (Inl e, s2) \<Rightarrow> (Raises e, s2)
         | (Inr fut, s2) \<Rightarrow>
             (asyncio_wait_for fut (Some (timeout_s cfg)),
              log_event (Awaited (Some (timeout_s cfg))) s2))"

definition backoff_async ::
  "python_runtime \<Rightarrow> settings \<Rightarrow> (nat \<Rightarrow> real) \<Rightarrow> nat \<Rightarrow> module_state
     \<Rightarrow> py_exc option \<times> module_state" where
  "backoff_async rt cfg draws attempt s =
     (if attempt < max_retries cfg then
        (case compute_backoff_delay rt cfg attempt (draws attempt) of
           Inl e \<Rightarrow> (Some e, s)
         | Inr delay \<Rightarrow> (None, asyncio_sleep delay s))
      else (None, s))"

fun retry_loop_async ::
  "python_runtime \<Rightarrow> settings \<Rightarrow> world \<Rightarrow> (nat \<Rightarrow> real) \<Rightarrow> string \<Rightarrow> string \<Rightarrow> string
     \<Rightarrow> nat list \<Rightarrow> module_state \<Rightarrow> string option outcome \<times> module_state" where
  "retry_loop_async rt cfg w draws chat_id input_text model_id [] s = (Returns None, s)"
| "retry_loop_async rt cfg w draws chat_id input_text model_id (attempt # rest) s =
     (case try_call_async cfg (w attempt) chat_id input_text model_id s of
        (Returns result, s1) \<Rightarrow> (Returns (Some result), s1)
      | (Hangs, s1) \<Rightarrow> (Hangs, s1)
      | (Raises e, s1) \<Rightarrow>
          (if is_TimeoutError e \<or> is_Exception e then
             (case backoff_async rt cfg draws attempt s1 of
                (Some e', s2) \<Rightarrow> (Raises e', s2)
              | (None, s2) \<Rightarrow>
                  retry_loop_async rt cfg w draws chat_id input_text model_id rest s2)
           else (Raises e, s1)))"

definition process_agent_request_async ::
  "python_runtime \<Rightarrow> settings \<Rightarrow> world \<Rightarrow> (nat \<Rightarrow> real) \<Rightarrow> string \<Rightarrow> string \<Rightarrow> string option
     \<Rightarrow> module_state \<Rightarrow> string option outcome \<times> module_state" where
  "process_agent_request_async rt cfg w draws chat_id input_text model_id s =
     (case model_id of
        None \<Rightarrow> (Returns None, s)
      | Some m \<Rightarrow>
          (if m = '''' then (Returns None, s)
           else retry_loop_async rt cfg w draws chat_id input_text m
                  [0 ..< max_retries cfg + 1] s))"

subsection \<open>Reading the trace\<close>

text \<open>The events a call appended, and the worker executions among them.\<close>

definition emitted :: "module_state \<Rightarrow> module_state \<Rightarrow> event list" where
  "emitted s s' = drop (length (trace s)) (trace s')"

fun is_Submitted :: "event \<Rightarrow> bool" where
  "is_Submitted (Submitted _ _ _) = True"
| "is_Submitted _ = False"

fun is_Sleep :: "event \<Rightarrow> bool" where
  "is_Sleep (Sleep _) = True"
| "is_Sleep _ = False"

definition executions :: "event list \<Rightarrow> nat" where
  "executions evs = length (filter is_Submitted evs)"

definition sleeps :: "event list \<Rightarrow> nat" where
  "sleeps evs = length (filter is_Sleep evs)"

text \<open>The module never holds a pool that was shut down.\<close>

definition pool_open :: "module_state \<Rightarrow> bool" where
  "pool_open s = (case executor s of None \<Rightarrow> True | Some pool \<Rightarrow> \<not> shut_down pool)"

subsection \<open>Kinds of attempt\<close>

text \<open>
  How one attempt ends for the dispatcher, read off the agent's behaviour and the
  timeout in force. An extraction failure: the agent answered in time and
  \<^verbatim>\<open>_extract_final_text\<close> raised. A transient failure: the wait timed out, or the
  agent raised an exception below \<^verbatim>\<open>Exception\<close> in time.
\<close>

fun extraction_fails :: "settings \<Rightarrow> agent_behaviour \<Rightarrow> bool" where
  "extraction_fails cfg (Agent_returns d r) = (d \<le> timeout_s cfg \<and> isl (extract_final_text r))"
| "extraction_fails cfg _ = False"

fun transient_failure :: "settings \<Rightarrow> agent_behaviour \<Rightarrow> bool" where
  "transient_failure cfg (Agent_returns d r) = (timeout_s cfg < d)"
| "transient_failure cfg (Agent_raises d e) = (timeout_s cfg < d \<or> is_Exception e)"
| "transient_failure cfg Agent_hangs = True"


text \<open>The event of \<^verbatim>\<open>_get_executor\<close> in a state: a pool is created when there is none.\<close>

definition pool_creation :: "module_state \<Rightarrow> event list" where
  "pool_creation s =
     (case executor s of
        None \<Rightarrow> [Pool_created (ThreadPoolExecutor 4 ''agent-worker'')]
      | Some pool \<Rightarrow> [])"

text \<open>
  The events of one failed attempt: the submission, the wait, and the sleep of the
  backoff when a retry is left and the delay could be computed.
\<close>

definition backoff_events ::
  "python_runtime \<Rightarrow> settings \<Rightarrow> (nat \<Rightarrow> real) \<Rightarrow> nat \<Rightarrow> event list" where
  "backoff_events rt cfg draws attempt =
     (if attempt < max_retries cfg then
        (case compute_backoff_delay rt cfg attempt (draws attempt) of
           Inl e \<Rightarrow> []
         | Inr delay \<Rightarrow> [Sleep delay])
      else [])"

definition failed_attempt_events ::
  "python_runtime \<Rightarrow> settings \<Rightarrow> (nat \<Rightarrow> real) \<Rightarrow> string \<Rightarrow> string \<Rightarrow> string \<Rightarrow> nat
     \<Rightarrow> event list" where
  "failed_attempt_events rt cfg draws chat_id input_text model_id attempt =
     [Submitted chat_id input_text model_id, Awaited (Some (timeout_s cfg))] @
     backoff_events rt cfg draws attempt"

subsection \<open>Concrete inputs\<close>

text \<open>
  Two runtimes. The exact one rounds nothing: it computes what the floats compute
  wherever every intermediate value is a float, as in the runs below. The coarse one
  rounds to the nearest multiple of \<open>1 / 1024\<close>. \<^verbatim>\<open>threading.TIMEOUT_MAX\<close> and the
  longest sleep are those of CPython on 64-bit Linux, in whole seconds.
\<close>

definition exact_runtime :: python_runtime where
  "exact_runtime = \<lparr>fround = (\<lambda>x. x), timeout_max = 9223372036, sleep_max = 9223372036\<rparr>"

definition coarse_runtime :: python_runtime where
  "coarse_runtime =
     \<lparr>fround = (\<lambda>x. real_of_int \<lfloor>x * 1024 + 1 / 2\<rfloor> / 1024),
      timeout_max = 9223372036, sleep_max = 9223372036\<rparr>"

definition hello_response :: agent_result where
  "hello_response =
     With_message \<lparr>role = Some ''assistant'', content = Some [text_block ''hello'']\<rparr>"

definition always :: "agent_behaviour \<Rightarrow> world" where
  "always b = (\<lambda>attempt chat_id model_id input_text. b)"

definition no_jitter :: "nat \<Rightarrow> real" where
  "no_jitter = (\<lambda>attempt. 0)"

definition one_attempt_settings :: settings where
  "one_attempt_settings = default_settings\<lparr>agent_max_retries := 0\<rparr>"


definition many_retries_settings :: settings where
  "many_retries_settings = default_settings\<lparr>agent_max_retries := 1025\<rparr>"

definition state_after_shutdown :: module_state where
  "state_after_shutdown = shutdown_executor True (snd (get_executor initial_state))"

section \<open>The result extractor\<close>

lemma scan_blocks_skip:
  "\<forall>p \<in> set pre. p ''text'' = None \<Longrightarrow> scan_blocks (pre @ rest) acc = scan_blocks rest acc"
  by (induction pre) auto

lemma scan_blocks_found:
  "scan_blocks bs acc = t \<Longrightarrow> t \<noteq> acc \<Longrightarrow>
     \<exists>pre b post. bs = pre @ b # post \<and> (\<forall>p \<in> set pre. p ''text'' = None) \<and> b ''text'' = Some t"
proof (induction bs)
  case Nil
  then show ?case by simp
next
  case (Cons b bs)
  show ?case
  proof (cases "b ''text''")
    case None
    with Cons obtain pre b' post where
      "bs = pre @ b' # post" "\<forall>p \<in> set pre. p ''text'' = None" "b' ''text'' = Some t"
      by auto
    with None have "b # bs = (b # pre) @ b' # post \<and> (\<forall>p \<in> set (b # pre). p ''text'' = None)
        \<and> b' ''text'' = Some t"
      by simp
    then show ?thesis by blast
  next
    case (Some u)
    with Cons.prems have "b # bs = [] @ b # bs \<and> (\<forall>p \<in> set []. p ''text'' = None) \<and> b ''text'' = Some t"
      by simp
    then show ?thesis by blast
  qed
qed

lemma spec_first_nonempty_text_skip:
  "\<forall>p \<in> set pre. p ''text'' = None \<Longrightarrow>
     spec_first_nonempty_text (pre @ rest) = spec_first_nonempty_text rest"
  by (induction pre) auto

text \<open>
  C2, as the claim states it, fails: on the content \<^verbatim>\<open>[{"text": ""}, {"text": "hello"}]\<close>
  the extractor stops at the first block, finds its text empty and raises, where the
  scan for the first non-empty text gives \<^verbatim>\<open>"hello"\<close>.
\<close>

theorem extract_final_text_empty_first_block_fails:
  "extract_final_text empty_then_hello = Inl extraction_error \<and>
   spec_extract empty_then_hello = Inr ''hello''"
  by (simp add: extract_final_text_def spec_extract_def empty_then_hello_def text_block_def)

text \<open>
  C2, amended: the extractor returns the text of the first block that has a
  \<^verbatim>\<open>"text"\<close> key, provided that text is not empty, and raises the extraction error in
  every other case: no message, no content, no block with a \<^verbatim>\<open>"text"\<close> key, or an empty
  text in the first such block, whatever the later blocks hold. When it returns a
  text, that text is also the first non-empty text of the content.
\<close>

theorem extract_final_text_first_text_block:
  "(extract_final_text r = Inr t \<longleftrightarrow>
      t \<noteq> '''' \<and>
      (\<exists>m pre b post. r = With_message m \<and> content m = Some (pre @ b # post) \<and>
         (\<forall>p \<in> set pre. p ''text'' = None) \<and> b ''text'' = Some t)) \<and>
   ((\<forall>t'. extract_final_text r \<noteq> Inr t') \<longrightarrow> extract_final_text r = Inl extraction_error) \<and>
   (extract_final_text r = Inr t \<longrightarrow> spec_extract r = Inr t)"
proof (intro conjI)
  have found: "t \<noteq> '''' \<and>
      (\<exists>m pre b post. r = With_message m \<and> content m = Some (pre @ b # post) \<and>
         (\<forall>p \<in> set pre. p ''text'' = None) \<and> b ''text'' = Some t)"
    if ok: "extract_final_text r = Inr t"
  proof -
    from ok obtain m bs where r: "r = With_message m" and c: "content m = Some bs"
      and s: "scan_blocks bs '''' = t" and ne: "t \<noteq> ''''"
      by (auto simp: extract_final_text_def Let_def split: agent_result.splits option.splits if_splits)
    from scan_blocks_found [OF s ne] r c ne show ?thesis by blast
  qed
  have conv: "extract_final_text r = Inr t"
    if ne: "t \<noteq> ''''" and ex: "\<exists>m pre b post. r = With_message m \<and> content m = Some (pre @ b # post) \<and>
         (\<forall>p \<in> set pre. p ''text'' = None) \<and> b ''text'' = Some t"
  proof -
    from ex obtain m pre b post where r: "r = With_message m"
      and c: "content m = Some (pre @ b # post)"
      and pre: "\<forall>p \<in> set pre. p ''text'' = None" and b: "b ''text'' = Some t"
      by blast
    have "scan_blocks (pre @ b # post) '''' = t"
      using scan_blocks_skip [OF pre] b by simp
    with r c ne show ?thesis
      by (simp add: extract_final_text_def)
  qed
  show "extract_final_text r = Inr t \<longleftrightarrow>
      t \<noteq> '''' \<and>
      (\<exists>m pre b post. r = With_message m \<and> content m = Some (pre @ b # post) \<and>
         (\<forall>p \<in> set pre. p ''text'' = None) \<and> b ''text'' = Some t)"
    using found conv by blast
  show "(\<forall>t'. extract_final_text r \<noteq> Inr t') \<longrightarrow> extract_final_text r = Inl extraction_error"
    by (simp add: extract_final_text_def Let_def)
  show "extract_final_text r = Inr t \<longrightarrow> spec_extract r = Inr t"
  proof
    assume ok: "extract_final_text r = Inr t"
    from found [OF ok] obtain m pre b post where r: "r = With_message m"
      and c: "content m = Some (pre @ b # post)"
      and pre: "\<forall>p \<in> set pre. p ''text'' = None" and b: "b ''text'' = Some t" and ne: "t \<noteq> ''''"
      by blast
    have "spec_first_nonempty_text (pre @ b # post) = Some t"
      using spec_first_nonempty_text_skip [OF pre] b ne by simp
    with r c show "spec_extract r = Inr t"
      by (simp add: spec_extract_def)
  qed
qed

theorem extract_final_text_first_text_block_witness:
  "extract_final_text hello_response = Inr ''hello'' \<and>
   spec_extract hello_response = Inr ''hello'' \<and>
   (\<exists>m pre b post. hello_response = With_message m \<and> content m = Some (pre @ b # post) \<and>
      (\<forall>p \<in> set pre. p ''text'' = None) \<and> b ''text'' = Some ''hello'')"
proof -
  have ok: "extract_final_text hello_response = Inr ''hello''"
    by (simp add: extract_final_text_def hello_response_def text_block_def)
  with extract_final_text_first_text_block [of hello_response "''hello''"] show ?thesis
    by blast
qed

section \<open>The backoff delay\<close>

lemma rounding_exact: "rounding (\<lambda>x. x)"
  by (simp add: rounding_def mono_def)

lemma rounding_coarse: "rounding (fround coarse_runtime)"
proof -
  have m: "mono (\<lambda>x::real. real_of_int \<lfloor>x * 1024 + 1 / 2\<rfloor> / 1024)"
  proof (rule monoI)
    fix x y :: real
    assume "x \<le> y"
    then have "\<lfloor>x * 1024 + 1 / 2\<rfloor> \<le> \<lfloor>y * 1024 + 1 / 2\<rfloor>"
      by (intro floor_mono) simp
    then show "real_of_int \<lfloor>x * 1024 + 1 / 2\<rfloor> / 1024 \<le> real_of_int \<lfloor>y * 1024 + 1 / 2\<rfloor> / 1024"
      by simp
  qed
  have i: "real_of_int \<lfloor>(real_of_int k / 1024) * 1024 + 1 / 2\<rfloor> / 1024 = real_of_int k / 1024" for k :: int
  proof -
    have "\<lfloor>real_of_int k + 1 / 2\<rfloor> = k"
      by linarith
    then show ?thesis by simp
  qed
  from m i show ?thesis
    by (simp add: rounding_def coarse_runtime_def)
qed

lemma fround_mono: "rounding (fround rt) \<Longrightarrow> x \<le> y \<Longrightarrow> fround rt x \<le> fround rt y"
  by (simp add: rounding_def mono_def)

lemma fround_nonneg: "rounding (fround rt) \<Longrightarrow> 0 \<le> x \<Longrightarrow> 0 \<le> fround rt x"
  using fround_mono [of rt 0 x] by (simp add: rounding_def)

lemma fround_fround: "rounding (fround rt) \<Longrightarrow> fround rt (fround rt x) = fround rt x"
  by (simp add: rounding_def)

text \<open>Below \<^verbatim>\<open>2**1024\<close> the delay is computed; from there on the conversion raises.\<close>

lemma compute_backoff_delay_computed:
  "attempt < 1024 \<Longrightarrow>
     compute_backoff_delay rt cfg attempt u =
       Inr (fadd rt (raw_delay rt cfg (fround rt (2 ^ attempt)))
              (uniform rt 0 (fmul rt (raw_delay rt cfg (fround rt (2 ^ attempt))) (fround rt 0.2)) u))"
  by (simp add: compute_backoff_delay_def pow2_as_float_def Let_def)

lemma compute_backoff_delay_overflow:
  "1024 \<le> attempt \<Longrightarrow> compute_backoff_delay rt cfg attempt u = Inl int_too_large"
  by (simp add: compute_backoff_delay_def pow2_as_float_def)

text \<open>
  C4, as the claim states it, fails: with the default settings and attempt 4 the raw
  delay is capped at 5 seconds, below \<open>base * 2 ^ 4 = 8\<close>, and no jitter reaches 8. All
  the values of this run are floats, so no rounding takes part in it: the exact and the
  coarse runtime compute the same.
\<close>

theorem compute_backoff_delay_below_uncapped:
  "compute_backoff_delay exact_runtime default_settings 4 0 = Inr 5 \<and>
   compute_backoff_delay coarse_runtime default_settings 4 0 = Inr 5 \<and>
   \<not> (agent_retry_backoff_base_sec default_settings * 2 ^ 4 \<le> 5)"
  by (simp add: compute_backoff_delay_def pow2_as_float_def raw_delay_def uniform_def fadd_def
      fsub_def fmul_def exact_runtime_def coarse_runtime_def default_settings_def)

text \<open>
  C4, amended: for every attempt index from 0 to 1023, non-negative float base and
  maximum delay and every draw in the unit interval, the delay is computed and lies
  between \<open>d = min maxDelay (base * 2 ^ attempt)\<close> and \<open>d + d * 0.2\<close>, the products and
  the sum being those of the floats; without rounding the upper bound is \<open>1.2 * d\<close>.
  The lower bound is \<open>base * 2 ^ attempt\<close> as long as that does not exceed the maximum
  delay.
\<close>

theorem compute_backoff_delay_bounds:
  assumes "rounding (fround rt)"
    and "is_float rt (agent_retry_backoff_base_sec cfg)"
    and "is_float rt (agent_retry_backoff_max_sec cfg)"
    and "0 \<le> agent_retry_backoff_base_sec cfg" and "0 \<le> agent_retry_backoff_max_sec cfg"
    and "0 \<le> u" and "u \<le> 1" and "attempt < 1024"
  shows "\<exists>r. compute_backoff_delay rt cfg attempt u = Inr r \<and>
           raw_delay rt cfg (fround rt (2 ^ attempt)) \<le> r \<and>
           r \<le> fadd rt (raw_delay rt cfg (fround rt (2 ^ attempt)))
                  (fmul rt (raw_delay rt cfg (fround rt (2 ^ attempt))) (fround rt 0.2)) \<and>
           (fround rt = (\<lambda>x. x) \<longrightarrow>
              raw_delay rt cfg (fround rt (2 ^ attempt))
                = min (agent_retry_backoff_max_sec cfg) (agent_retry_backoff_base_sec cfg * 2 ^ attempt) \<and>
              r \<le> 1.2 * raw_delay rt cfg (fround rt (2 ^ attempt))) \<and>
           (fmul rt (agent_retry_backoff_base_sec cfg) (fround rt (2 ^ attempt))
              \<le> agent_retry_backoff_max_sec cfg \<longrightarrow>
            fmul rt (agent_retry_backoff_base_sec cfg) (fround rt (2 ^ attempt)) \<le> r)"
proof -
  note R = assms(1)
  define p where "p = fround rt (2 ^ attempt)"
  define delay where "delay = raw_delay rt cfg p"
  define b where "b = fmul rt delay (fround rt 0.2)"
  define jitter where "jitter = uniform rt 0 b u"
  define r where "r = fadd rt delay jitter"
  have p0: "0 \<le> p"
    unfolding p_def by (rule fround_nonneg [OF R]) simp
  have prod0: "0 \<le> fmul rt (agent_retry_backoff_base_sec cfg) p"
    unfolding fmul_def using assms(4) p0 by (intro fround_nonneg [OF R]) simp
  have d0: "0 \<le> delay"
    using prod0 assms(5) by (simp add: delay_def raw_delay_def)
  have dfl: "fround rt delay = delay"
    using assms(3) fround_fround [OF R]
    by (simp add: delay_def raw_delay_def min_def is_float_def fmul_def)
  have c0: "0 \<le> fround rt 0.2"
    by (rule fround_nonneg [OF R]) simp
  have b0: "0 \<le> b"
    unfolding b_def fmul_def using d0 c0 by (intro fround_nonneg [OF R]) simp
  have bfl: "fround rt b = b"
    by (simp add: b_def fmul_def fround_fround [OF R])
  have jit: "jitter = fround rt (b * u)"
    using R bfl by (simp add: jitter_def uniform_def fadd_def fsub_def fmul_def rounding_def)
  have j0: "0 \<le> jitter"
    unfolding jit using b0 assms(6) by (intro fround_nonneg [OF R]) simp
  have "b * u \<le> b * 1"
    using b0 assms(7) by (rule mult_left_mono [rotated])
  then have "fround rt (b * u) \<le> fround rt b"
    by (intro fround_mono [OF R]) simp
  then have j1: "jitter \<le> b"
    by (simp add: jit bfl)
  have "fround rt delay \<le> fround rt (delay + jitter)"
    using j0 by (intro fround_mono [OF R]) simp
  then have lo: "delay \<le> r"
    by (simp add: r_def fadd_def dfl)
  have hi: "r \<le> fadd rt delay b"
    unfolding r_def fadd_def using j1 by (intro fround_mono [OF R]) simp
  have eq: "compute_backoff_delay rt cfg attempt u = Inr r"
    using assms(8)
    by (simp add: compute_backoff_delay_computed r_def jitter_def b_def delay_def p_def)
  have exact: "delay = min (agent_retry_backoff_max_sec cfg) (agent_retry_backoff_base_sec cfg * 2 ^ attempt)
      \<and> r \<le> 1.2 * delay"
    if id: "fround rt = (\<lambda>x. x)"
  proof -
    have "fadd rt delay b = 1.2 * delay"
      by (simp add: fadd_def b_def fmul_def id)
    with hi show ?thesis
      by (simp add: delay_def raw_delay_def p_def fmul_def id)
  qed
  have uncapped: "fmul rt (agent_retry_backoff_base_sec cfg) p \<le> r"
    if "fmul rt (agent_retry_backoff_base_sec cfg) p \<le> agent_retry_backoff_max_sec cfg"
    using that lo by (simp add: delay_def raw_delay_def)
  from eq lo hi exact uncapped show ?thesis
    unfolding b_def delay_def p_def by blast
qed

theorem compute_backoff_delay_bounds_witness:
  "compute_backoff_delay coarse_runtime default_settings 1 (1 / 2) = Inr (1127 / 1024) \<and>
   raw_delay coarse_runtime default_settings (fround coarse_runtime (2 ^ 1)) = 1 \<and>
   fadd coarse_runtime 1 (fmul coarse_runtime 1 (fround coarse_runtime 0.2)) = 1229 / 1024 \<and>
   (\<exists>r. compute_backoff_delay coarse_runtime default_settings 1 (1 / 2) = Inr r \<and> 1 \<le> r \<and>
        r \<le> 1229 / 1024)"
proof -
  have u: "(0::real) \<le> 1 / 2" "(1 / 2 :: real) \<le> 1"
    by simp_all
  have f: "is_float coarse_runtime (agent_retry_backoff_base_sec default_settings)"
    "is_float coarse_runtime (agent_retry_backoff_max_sec default_settings)"
    by (simp_all add: is_float_def coarse_runtime_def default_settings_def)
  have b: "0 \<le> agent_retry_backoff_base_sec default_settings"
    "0 \<le> agent_retry_backoff_max_sec default_settings"
    by (simp_all add: default_settings_def)
  have a: "(1::nat) < 1024"
    by simp
  have d: "raw_delay coarse_runtime default_settings (fround coarse_runtime (2 ^ 1)) = 1"
    by (simp add: raw_delay_def fmul_def coarse_runtime_def default_settings_def)
  have h: "fadd coarse_runtime 1 (fmul coarse_runtime 1 (fround coarse_runtime 0.2)) = 1229 / 1024"
    by (simp add: fadd_def fmul_def coarse_runtime_def)
  have v: "compute_backoff_delay coarse_runtime default_settings 1 (1 / 2) = Inr (1127 / 1024)"
    by (simp add: compute_backoff_delay_def pow2_as_float_def raw_delay_def uniform_def fadd_def
        fsub_def fmul_def coarse_runtime_def default_settings_def)
  from compute_backoff_delay_bounds [OF rounding_coarse f b u a]
  obtain r where "compute_backoff_delay coarse_runtime default_settings 1 (1 / 2) = Inr r"
    "raw_delay coarse_runtime default_settings (fround coarse_runtime (2 ^ 1)) \<le> r"
    "r \<le> fadd coarse_runtime (raw_delay coarse_runtime default_settings (fround coarse_runtime (2 ^ 1)))
           (fmul coarse_runtime (raw_delay coarse_runtime default_settings (fround coarse_runtime (2 ^ 1)))
              (fround coarse_runtime 0.2))"
    by blast
  then have "\<exists>r. compute_backoff_delay coarse_runtime default_settings 1 (1 / 2) = Inr r \<and> 1 \<le> r \<and>
        r \<le> 1229 / 1024"
    unfolding d h by blast
  with v d h show ?thesis
    by blast
qed

section \<open>The pool's lifecycle\<close>

lemma executor_shutdown_executor: "executor (shutdown_executor wait s) = None"
  by (simp add: shutdown_executor_def log_event_def split: option.splits)

lemma get_executor_open:
  "pool_open s \<Longrightarrow> \<not> shut_down (fst (get_executor s)) \<and> pool_open (snd (get_executor s))"
  by (simp add: pool_open_def get_executor_def ThreadPoolExecutor_def log_event_def Let_def
      split: option.splits)

lemma get_executor_holds: "executor (snd (get_executor s)) = Some (fst (get_executor s))"
  by (simp add: get_executor_def log_event_def Let_def split: option.splits)

text \<open>
  C9: a second \<^verbatim>\<open>shutdown_executor\<close> right after a first one changes nothing, whatever
  the \<^verbatim>\<open>wait\<close> arguments: the state, trace included, is the state after one call, so no
  pool is shut down a second time.
\<close>

theorem shutdown_executor_idempotent:
  "shutdown_executor wait2 (shutdown_executor wait1 s) = shutdown_executor wait1 s"
proof -
  have "executor (shutdown_executor wait1 s) = None"
    by (rule executor_shutdown_executor)
  then show ?thesis
    by (simp add: shutdown_executor_def [of wait2])
qed

theorem shutdown_executor_idempotent_witness:
  "shutdown_executor False (shutdown_executor True (snd (get_executor initial_state)))
     = \<lparr>executor = None,
        trace = [Pool_created (ThreadPoolExecutor 4 ''agent-worker''), Pool_shutdown True True]\<rparr>"
proof -
  have "shutdown_executor True (snd (get_executor initial_state))
     = \<lparr>executor = None,
        trace = [Pool_created (ThreadPoolExecutor 4 ''agent-worker''), Pool_shutdown True True]\<rparr>"
    by (simp add: shutdown_executor_def get_executor_def initial_state_def log_event_def
        pool_shutdown_def Let_def)
  with shutdown_executor_idempotent [of False True "snd (get_executor initial_state)"]
  show ?thesis by simp
qed

text \<open>
  C3, as the claim states it, fails: after \<^verbatim>\<open>shutdown_executor\<close> a job is dispatched, a
  new pool is created for it, the submission is accepted and the job's text comes back.
\<close>

theorem submission_after_shutdown_succeeds:
  "executor state_after_shutdown = None \<and>
   process_agent_request exact_runtime default_settings (always (Agent_returns 0.5 hello_response))
       no_jitter
       ''chat'' ''hi'' (Some ''model'') state_after_shutdown
     = (Returns (Some ''hello''),
        \<lparr>executor = Some (ThreadPoolExecutor 4 ''agent-worker''),
         trace = [Pool_created (ThreadPoolExecutor 4 ''agent-worker''), Pool_shutdown True True,
                  Pool_created (ThreadPoolExecutor 4 ''agent-worker''),
                  Submitted ''chat'' ''hi'' ''model'', Awaited (Some 45)]\<rparr>)"
  by code_simp

text \<open>
  C3, amended: after \<^verbatim>\<open>shutdown_executor\<close> the module holds no pool; the next
  \<^verbatim>\<open>_get_executor\<close> creates a new pool that is not shut down and keeps it, and a
  submission to it is accepted: it raises no pool-closed error and starts the task.
\<close>

theorem submission_after_shutdown_recreates_pool:
  "executor (shutdown_executor wait s) = None \<and>
   fst (get_executor (shutdown_executor wait s)) = ThreadPoolExecutor 4 ''agent-worker'' \<and>
   \<not> shut_down (fst (get_executor (shutdown_executor wait s))) \<and>
   executor (snd (get_executor (shutdown_executor wait s)))
     = Some (ThreadPoolExecutor 4 ''agent-worker'') \<and>
   fst (submit (fst (get_executor (shutdown_executor wait s))) a chat_id input_text model_id
          (snd (get_executor (shutdown_executor wait s))))
     = Inr (call_agent_blocking a chat_id input_text model_id)"
proof -
  have none: "executor (shutdown_executor wait s) = None"
    by (rule executor_shutdown_executor)
  then have pool: "fst (get_executor (shutdown_executor wait s)) = ThreadPoolExecutor 4 ''agent-worker''"
    by (simp add: get_executor_def Let_def)
  have opened: "\<not> shut_down (ThreadPoolExecutor 4 ''agent-worker'')"
    by (simp add: ThreadPoolExecutor_def)
  from none pool opened get_executor_holds [of "shutdown_executor wait s"] show ?thesis
    by (simp add: submit_def)
qed

theorem submission_after_shutdown_recreates_pool_witness:
  "executor (shutdown_executor True (snd (get_executor initial_state))) = None \<and>
   fst (submit (fst (get_executor (shutdown_executor True (snd (get_executor initial_state)))))
          (always (Agent_returns 0.5 hello_response) 0) ''chat'' ''hi'' ''model''
          (snd (get_executor (shutdown_executor True (snd (get_executor initial_state))))))
     = Inr (Finishes 0.5 (Inr ''hello''))"
proof -
  have "call_agent_blocking (always (Agent_returns 0.5 hello_response) 0) ''chat'' ''hi'' ''model''
      = Finishes 0.5 (Inr ''hello'')"
    by (simp add: call_agent_blocking_def always_def hello_response_def text_block_def extract_final_text_def)
  with submission_after_shutdown_recreates_pool
    [of True "snd (get_executor initial_state)" "always (Agent_returns 0.5 hello_response) 0"
        "''chat''" "''hi''" "''model''"]
  show ?thesis by auto
qed

section \<open>The unconfigured worker\<close>

text \<open>
  C10: with the empty string as \<^verbatim>\<open>model_id\<close> both entry points do what they do with
  \<^verbatim>\<open>None\<close>: they return \<^verbatim>\<open>None\<close> and leave the state as it was, so no pool is created,
  nothing is submitted and no worker runs.
\<close>

theorem empty_model_id_like_absent:
  "process_agent_request rt cfg w draws chat_id input_text (Some '''') s = (Returns None, s) \<and>
   process_agent_request rt cfg w draws chat_id input_text None s = (Returns None, s) \<and>
   process_agent_request_async rt cfg w draws chat_id input_text (Some '''') s = (Returns None, s) \<and>
   process_agent_request_async rt cfg w draws chat_id input_text None s = (Returns None, s) \<and>
   executions (emitted s (snd (process_agent_request rt cfg w draws chat_id input_text (Some '''') s))) = 0 \<and>
   executions (emitted s (snd (process_agent_request_async rt cfg w draws chat_id input_text (Some '''') s))) = 0"
  by (simp add: process_agent_request_def process_agent_request_async_def emitted_def executions_def)

theorem empty_model_id_like_absent_witness:
  "process_agent_request exact_runtime default_settings (always (Agent_returns 0.5 hello_response)) no_jitter
       ''chat'' ''hi'' (Some '''') initial_state = (Returns None, initial_state) \<and>
   process_agent_request_async exact_runtime default_settings (always (Agent_returns 0.5 hello_response)) no_jitter
       ''chat'' ''hi'' (Some '''') initial_state = (Returns None, initial_state)"
  using empty_model_id_like_absent
    [of exact_runtime default_settings "always (Agent_returns 0.5 hello_response)" no_jitter
        "''chat''" "''hi''" initial_state]
  by simp

section \<open>One attempt\<close>

lemma emitted_append: "trace s' = trace s @ evs \<Longrightarrow> emitted s s' = evs"
  by (simp add: emitted_def)

lemma get_executor_trace: "trace (snd (get_executor s)) = trace s @ pool_creation s"
  by (simp add: get_executor_def pool_creation_def log_event_def Let_def split: option.splits)

lemma get_executor_again:
  "get_executor (snd (get_executor s)) = (fst (get_executor s), snd (get_executor s))"
  by (simp add: get_executor_def log_event_def Let_def split: option.splits)

text \<open>What an attempt appends to the trace, in any state.\<close>

lemma try_call_emits:
  "\<exists>evs. trace (snd (try_call rt cfg a chat_id input_text model_id s)) = trace s @ evs \<and>
     executions evs \<le> 1 \<and> sleeps evs = 0 \<and>
     (\<forall>t. Awaited t \<in> set evs \<longrightarrow> t = Some (timeout_s cfg))"
proof (cases "executor s")
  case None
  show ?thesis
  proof (intro exI conjI)
    show "trace (snd (try_call rt cfg a chat_id input_text model_id s)) = trace s @
        [Pool_created (ThreadPoolExecutor 4 ''agent-worker''),
         Submitted chat_id input_text model_id, Awaited (Some (timeout_s cfg))]"
      using None
      by (simp add: try_call_def get_executor_def submit_def log_event_def Let_def
          ThreadPoolExecutor_def)
  qed (simp_all add: executions_def sleeps_def)
next
  case (Some pool)
  show ?thesis
  proof (cases "shut_down pool")
    case True
    with Some have "trace (snd (try_call rt cfg a chat_id input_text model_id s)) = trace s @ []"
      by (simp add: try_call_def get_executor_def submit_def)
    then show ?thesis
      by (intro exI [of _ "[]"]) (simp add: executions_def sleeps_def)
  next
    case False
    show ?thesis
    proof (intro exI conjI)
      show "trace (snd (try_call rt cfg a chat_id input_text model_id s)) = trace s @
          [Submitted chat_id input_text model_id, Awaited (Some (timeout_s cfg))]"
        using Some False
        by (simp add: try_call_def get_executor_def submit_def log_event_def)
    qed (simp_all add: executions_def sleeps_def)
  qed
qed


text \<open>An attempt in a state whose pool, if any, is open: the submission is accepted.\<close>

lemma try_call_open:
  assumes "pool_open s"
  shows "try_call rt cfg a chat_id input_text model_id s =
     (future_result rt (Some (timeout_s cfg)) (call_agent_blocking a chat_id input_text model_id),
      (snd (get_executor s))\<lparr>trace := trace s @ pool_creation s @
         [Submitted chat_id input_text model_id, Awaited (Some (timeout_s cfg))]\<rparr>)"
  using assms
  by (simp add: try_call_def get_executor_def submit_def log_event_def pool_open_def
      pool_creation_def ThreadPoolExecutor_def Let_def split: option.splits)





section \<open>The backoff\<close>


lemma backoff_state:
  "snd (backoff rt cfg draws attempt s) = s\<lparr>trace := trace s @ backoff_events rt cfg draws attempt\<rparr>"
  by (simp add: backoff_def backoff_events_def time_sleep_def log_event_def split: sum.splits)

text \<open>The block raises exactly when a retry is left and the power no longer converts.\<close>

lemma backoff_raises:
  "fst (backoff rt cfg draws attempt s)
     = (if attempt < max_retries cfg \<and> 1024 \<le> attempt then Some int_too_large else None)"
proof (cases "attempt < 1024")
  case True
  then show ?thesis
    by (simp add: backoff_def compute_backoff_delay_computed time_sleep_def)
next
  case False
  then show ?thesis
    by (simp add: backoff_def compute_backoff_delay_overflow)
qed

lemma backoff_events_cases:
  "backoff_events rt cfg draws attempt = [] \<or>
   (\<exists>delay. backoff_events rt cfg draws attempt = [Sleep delay])"
  by (cases "compute_backoff_delay rt cfg attempt (draws attempt)") (simp_all add: backoff_events_def)

lemma backoff_events_last: "max_retries cfg \<le> attempt \<Longrightarrow> backoff_events rt cfg draws attempt = []"
  by (simp add: backoff_events_def)

lemma backoff_events_quiet:
  "executions (backoff_events rt cfg draws attempt) = 0 \<and>
   sleeps (backoff_events rt cfg draws attempt) \<le> 1 \<and>
   (\<forall>t. Awaited t \<notin> set (backoff_events rt cfg draws attempt))"
proof -
  from backoff_events_cases [of rt cfg draws attempt]
  consider "backoff_events rt cfg draws attempt = []"
    | delay where "backoff_events rt cfg draws attempt = [Sleep delay]"
    by blast
  then show ?thesis
  proof cases
    case 1
    then show ?thesis by (simp add: executions_def sleeps_def)
  next
    case 2
    then show ?thesis by (simp add: executions_def sleeps_def)
  qed
qed

section \<open>What the loop appends to the trace\<close>

lemma retry_loop_emits:
  "\<exists>evs. trace (snd (retry_loop rt cfg w draws chat_id input_text model_id as s)) = trace s @ evs \<and>
     executions evs \<le> length as \<and>
     (\<forall>t. Awaited t \<in> set evs \<longrightarrow> t = Some (timeout_s cfg)) \<and>
     ((\<forall>a \<in> set as. max_retries cfg \<le> a) \<longrightarrow> sleeps evs = 0)"
proof (induction as arbitrary: s)
  case Nil
  show ?case by (simp add: executions_def sleeps_def)
next
  case (Cons attempt rest)
  obtain r s1 where tc: "try_call rt cfg (w attempt) chat_id input_text model_id s = (r, s1)"
    by (cases "try_call rt cfg (w attempt) chat_id input_text model_id s")
  from try_call_emits [of rt cfg "w attempt" chat_id input_text model_id s] tc
  obtain evs1 where e1: "trace s1 = trace s @ evs1" "executions evs1 \<le> 1" "sleeps evs1 = 0"
    "\<forall>t. Awaited t \<in> set evs1 \<longrightarrow> t = Some (timeout_s cfg)"
    by auto
  have stop: ?case
    if "snd (retry_loop rt cfg w draws chat_id input_text model_id (attempt # rest) s) = s1"
    using that e1 by (intro exI [of _ evs1]) simp
  show ?case
  proof (cases r)
    case Hangs
    with tc show ?thesis by (intro stop) simp
  next
    case (Returns result)
    with tc show ?thesis by (intro stop) simp
  next
    case (Raises e)
    show ?thesis
    proof (cases "is_TimeoutError e \<or> is_Exception e")
      case False
      with tc Raises show ?thesis by (intro stop) simp
    next
      case True
      define evs2 where "evs2 = backoff_events rt cfg draws attempt"
      obtain b s2 where bo: "backoff rt cfg draws attempt s1 = (b, s2)"
        by (cases "backoff rt cfg draws attempt s1")
      from backoff_state [of rt cfg draws attempt s1] bo
      have t2: "trace s2 = trace s1 @ evs2"
        by (simp add: evs2_def)
      from backoff_events_quiet [of rt cfg draws attempt] backoff_events_last [of cfg attempt rt draws]
      have e2: "executions evs2 = 0" "\<forall>t. Awaited t \<notin> set evs2"
        "max_retries cfg \<le> attempt \<longrightarrow> evs2 = []"
        by (simp_all add: evs2_def)
      show ?thesis
      proof (cases b)
        case (Some e')
        have "snd (retry_loop rt cfg w draws chat_id input_text model_id (attempt # rest) s) = s2"
          using tc Raises True bo Some by simp
        then have tr: "trace (snd (retry_loop rt cfg w draws chat_id input_text model_id (attempt # rest) s))
            = trace s @ (evs1 @ evs2)"
          using e1(1) t2 by simp
        have ex: "executions (evs1 @ evs2) \<le> length (attempt # rest)"
          using e1(2) e2(1) by (simp add: executions_def)
        have aw: "\<forall>t. Awaited t \<in> set (evs1 @ evs2) \<longrightarrow> t = Some (timeout_s cfg)"
          using e1(4) e2(2) by auto
        have sl: "(\<forall>a \<in> set (attempt # rest). max_retries cfg \<le> a) \<longrightarrow> sleeps (evs1 @ evs2) = 0"
          using e1(3) e2(3) by (auto simp: sleeps_def)
        from tr ex aw sl show ?thesis by blast
      next
        case None
        from Cons.IH [of s2]
        obtain evs3 where e3:
          "trace (snd (retry_loop rt cfg w draws chat_id input_text model_id rest s2)) = trace s2 @ evs3"
          "executions evs3 \<le> length rest"
          "\<forall>t. Awaited t \<in> set evs3 \<longrightarrow> t = Some (timeout_s cfg)"
          "(\<forall>a \<in> set rest. max_retries cfg \<le> a) \<longrightarrow> sleeps evs3 = 0"
          by blast
        have step: "retry_loop rt cfg w draws chat_id input_text model_id (attempt # rest) s
            = retry_loop rt cfg w draws chat_id input_text model_id rest s2"
          using tc Raises True bo None by simp
        have tr: "trace (snd (retry_loop rt cfg w draws chat_id input_text model_id (attempt # rest) s))
            = trace s @ (evs1 @ evs2 @ evs3)"
          using step e1(1) t2 e3(1) by simp
        have ex: "executions (evs1 @ evs2 @ evs3) \<le> length (attempt # rest)"
          using e1(2) e2(1) e3(2) by (simp add: executions_def)
        have aw: "\<forall>t. Awaited t \<in> set (evs1 @ evs2 @ evs3) \<longrightarrow> t = Some (timeout_s cfg)"
          using e1(4) e2(2) e3(3) by auto
        have sl: "(\<forall>a \<in> set (attempt # rest). max_retries cfg \<le> a) \<longrightarrow> sleeps (evs1 @ evs2 @ evs3) = 0"
          using e1(3) e2(3) e3(4) by (auto simp: sleeps_def)
        from tr ex aw sl show ?thesis by blast
      qed
    qed
  qed
qed

lemma process_agent_request_emits:
  "\<exists>evs. trace (snd (process_agent_request rt cfg w draws chat_id input_text model_id s)) = trace s @ evs \<and>
     executions evs \<le> max_retries cfg + 1 \<and>
     (\<forall>t. Awaited t \<in> set evs \<longrightarrow> t = Some (timeout_s cfg)) \<and>
     (max_retries cfg = 0 \<longrightarrow> sleeps evs = 0)"
proof (cases "model_id = None \<or> model_id = Some ''''")
  case True
  then have "trace (snd (process_agent_request rt cfg w draws chat_id input_text model_id s)) = trace s @ []"
    by (auto simp: process_agent_request_def)
  then show ?thesis
    by (intro exI [of _ "[]"]) (simp add: executions_def sleeps_def)
next
  case False
  then obtain m where m: "model_id = Some m" "m \<noteq> ''''"
    by auto
  from retry_loop_emits [of rt cfg w draws chat_id input_text m "[0 ..< max_retries cfg + 1]" s] m
  show ?thesis
    by (auto simp: process_agent_request_def)
qed







text \<open>With no retry left the loop makes its one attempt and stops, whatever comes of it.\<close>

lemma retry_loop_last_attempt:
  assumes "max_retries cfg \<le> attempt"
  shows "snd (retry_loop rt cfg w draws chat_id input_text model_id [attempt] s)
     = snd (try_call rt cfg (w attempt) chat_id input_text model_id s)"
proof -
  obtain r s1 where tc: "try_call rt cfg (w attempt) chat_id input_text model_id s = (r, s1)"
    by (cases "try_call rt cfg (w attempt) chat_id input_text model_id s")
  have "backoff rt cfg draws attempt s1 = (None, s1)"
    using assms by (simp add: backoff_def)
  with tc show ?thesis
    by (cases r) simp_all
qed

section \<open>The retry budget\<close>

text \<open>
  C1: a call of \<^verbatim>\<open>process_agent_request\<close> submits the worker at most
  \<open>max_retries + 1\<close> times, where \<open>max_retries\<close> is the setting clamped at 0, hence at
  most \<open>agent_max_retries + 1\<close> times for a non-negative setting; it submits nothing
  when \<^verbatim>\<open>model_id\<close> is absent or empty; and with \<open>max_retries = 0\<close> a configured job
  makes exactly one submission and no sleep.
\<close>

theorem executions_bounded_by_retry_budget:
  "executions (emitted s (snd (process_agent_request rt cfg w draws chat_id input_text model_id s)))
     \<le> max_retries cfg + 1 \<and>
   (0 \<le> agent_max_retries cfg \<longrightarrow>
      int (executions (emitted s (snd (process_agent_request rt cfg w draws chat_id input_text model_id s))))
        \<le> agent_max_retries cfg + 1) \<and>
   (model_id = None \<or> model_id = Some '''' \<longrightarrow>
      executions (emitted s (snd (process_agent_request rt cfg w draws chat_id input_text model_id s))) = 0) \<and>
   (pool_open s \<and> model_id = Some m \<and> m \<noteq> '''' \<and> max_retries cfg = 0 \<longrightarrow>
      executions (emitted s (snd (process_agent_request rt cfg w draws chat_id input_text model_id s))) = 1 \<and>
      sleeps (emitted s (snd (process_agent_request rt cfg w draws chat_id input_text model_id s))) = 0)"
proof -
  let ?s' = "snd (process_agent_request rt cfg w draws chat_id input_text model_id s)"
  from process_agent_request_emits [of rt cfg w draws chat_id input_text model_id s]
  obtain evs where tr: "trace ?s' = trace s @ evs" and ex: "executions evs \<le> max_retries cfg + 1"
    by blast
  have em: "emitted s ?s' = evs"
    using tr by (rule emitted_append)
  have bound: "executions (emitted s ?s') \<le> max_retries cfg + 1"
    using em ex by simp
  have setting: "int (executions (emitted s ?s')) \<le> agent_max_retries cfg + 1"
    if "0 \<le> agent_max_retries cfg"
    using bound that by (simp add: max_retries_def)
  have unconfigured: "executions (emitted s ?s') = 0"
    if "model_id = None \<or> model_id = Some ''''"
    using that by (auto simp: process_agent_request_def emitted_def executions_def)
  have single: "executions (emitted s ?s') = 1 \<and> sleeps (emitted s ?s') = 0"
    if h: "pool_open s \<and> model_id = Some m \<and> m \<noteq> '''' \<and> max_retries cfg = 0"
  proof -
    from h have "?s' = snd (retry_loop rt cfg w draws chat_id input_text m [0] s)"
      by (simp add: process_agent_request_def)
    also have "\<dots> = snd (try_call rt cfg (w 0) chat_id input_text m s)"
      using h by (intro retry_loop_last_attempt) simp
    finally have "trace ?s' = trace s @ pool_creation s @
        [Submitted chat_id input_text m, Awaited (Some (timeout_s cfg))]"
      using h by (simp add: try_call_open)
    then have "emitted s ?s' = pool_creation s @
        [Submitted chat_id input_text m, Awaited (Some (timeout_s cfg))]"
      by (rule emitted_append)
    then show ?thesis
      by (simp add: executions_def sleeps_def pool_creation_def split: option.splits)
  qed
  from bound setting unconfigured single show ?thesis
    by blast
qed

theorem executions_bounded_by_retry_budget_witness:
  "pool_open initial_state \<and> max_retries one_attempt_settings = 0 \<and>
   executions (emitted initial_state (snd (process_agent_request exact_runtime one_attempt_settings
       (always Agent_hangs) no_jitter ''chat'' ''hi'' (Some ''model'') initial_state))) = 1 \<and>
   sleeps (emitted initial_state (snd (process_agent_request exact_runtime one_attempt_settings
       (always Agent_hangs) no_jitter ''chat'' ''hi'' (Some ''model'') initial_state))) = 0 \<and>
   executions (emitted initial_state (snd (process_agent_request exact_runtime default_settings
       (always Agent_hangs) no_jitter ''chat'' ''hi'' (Some ''model'') initial_state))) \<le> 3 \<and>
   executions (emitted initial_state (snd (process_agent_request exact_runtime default_settings
       (always Agent_hangs) no_jitter ''chat'' ''hi'' None initial_state))) = 0"
proof -
  have h: "pool_open initial_state" "max_retries one_attempt_settings = 0"
    "max_retries default_settings = 2" "0 \<le> agent_max_retries default_settings"
    by (simp_all add: pool_open_def initial_state_def max_retries_def one_attempt_settings_def
        default_settings_def)
  show ?thesis
    using h
      executions_bounded_by_retry_budget [where s = initial_state and rt = exact_runtime
        and cfg = one_attempt_settings and w = "always Agent_hangs" and draws = no_jitter
        and chat_id = "''chat''" and input_text = "''hi''" and model_id = "Some ''model''"
        and m = "''model''"]
      executions_bounded_by_retry_budget [where s = initial_state and rt = exact_runtime
        and cfg = default_settings and w = "always Agent_hangs" and draws = no_jitter
        and chat_id = "''chat''" and input_text = "''hi''" and model_id = "Some ''model''"
        and m = "''model''"]
      executions_bounded_by_retry_budget [where s = initial_state and rt = exact_runtime
        and cfg = default_settings and w = "always Agent_hangs" and draws = no_jitter
        and chat_id = "''chat''" and input_text = "''hi''" and model_id = None
        and m = "''model''"]
    by simp
qed

section \<open>The timeout of an attempt\<close>



section \<open>The pool stays open\<close>

text \<open>
  The module starts without a pool, and no operation leaves a pool that was shut down
  in the global: \<open>pool_open\<close> holds in every state the module reaches.
\<close>

lemma pool_open_initial_state: "pool_open initial_state"
  by (simp add: pool_open_def initial_state_def)

lemma pool_open_shutdown_executor: "pool_open (shutdown_executor wait s)"
  by (simp add: pool_open_def executor_shutdown_executor)

lemma pool_open_trace_update: "pool_open (s\<lparr>trace := evs\<rparr>) = pool_open s"
  by (simp add: pool_open_def)

lemma pool_open_retry_loop:
  "pool_open s \<Longrightarrow> pool_open (snd (retry_loop rt cfg w draws chat_id input_text model_id as s))"
proof (induction as arbitrary: s)
  case Nil
  then show ?case by simp
next
  case (Cons attempt rest)
  obtain r s1 where tc: "try_call rt cfg (w attempt) chat_id input_text model_id s = (r, s1)"
    by (cases "try_call rt cfg (w attempt) chat_id input_text model_id s")
  with try_call_open [OF Cons.prems, of rt cfg "w attempt" chat_id input_text model_id]
    get_executor_open [OF Cons.prems]
  have s1: "pool_open s1"
    by (auto simp: pool_open_trace_update)
  obtain b s2 where bo: "backoff rt cfg draws attempt s1 = (b, s2)"
    by (cases "backoff rt cfg draws attempt s1")
  with backoff_state [of rt cfg draws attempt s1] s1 have s2: "pool_open s2"
    by (simp add: pool_open_trace_update)
  from Cons.IH [OF s2] s1 s2 tc bo show ?case
    by (cases r; cases b) simp_all
qed

lemma pool_open_process_agent_request:
  "pool_open s \<Longrightarrow>
     pool_open (snd (process_agent_request rt cfg w draws chat_id input_text model_id s))"
  by (simp add: process_agent_request_def pool_open_retry_loop split: option.splits)

section \<open>Where the two entry points agree\<close>







section \<open>Failed attempts and the retry budget\<close>

lemma extract_final_text_nonempty: "extract_final_text r = Inr t \<Longrightarrow> t \<noteq> ''''"
  by (simp add: extract_final_text_def Let_def split: if_splits)

lemma extract_final_text_error: "extract_final_text r = Inl e \<Longrightarrow> e = extraction_error"
  by (simp add: extract_final_text_def Let_def split: if_splits)

text \<open>An extraction failure and a transient failure both reach the handlers.\<close>

lemma failed_attempt_raises:
  assumes "extraction_fails cfg (a chat_id model_id input_text) \<or>
           transient_failure cfg (a chat_id model_id input_text)"
  shows "\<exists>e. future_result rt (Some (timeout_s cfg)) (call_agent_blocking a chat_id input_text model_id)
            = Raises e \<and> is_Exception e"
proof (cases "timeout_max rt < timeout_s cfg")
  case True
  then show ?thesis
    by (cases "a chat_id model_id input_text")
      (simp_all add: call_agent_blocking_def timeout_too_large_def)
next
  case False
  show ?thesis
  proof (cases "a chat_id model_id input_text")
    case (Agent_returns d r)
    show ?thesis
    proof (cases "d \<le> timeout_s cfg")
      case True
      with assms Agent_returns obtain e where e: "extract_final_text r = Inl e"
        by (cases "extract_final_text r") auto
      with extract_final_text_error [OF e] Agent_returns True False show ?thesis
        by (simp add: call_agent_blocking_def extraction_error_def)
    next
      case late: False
      with Agent_returns False show ?thesis
        by (simp add: call_agent_blocking_def)
    qed
  next
    case (Agent_raises d e)
    with assms False show ?thesis
      by (auto simp: call_agent_blocking_def)
  next
    case Agent_hangs
    with False show ?thesis
      by (simp add: call_agent_blocking_def)
  qed
qed

text \<open>
  One failed attempt, anywhere in the loop, while the delay can be computed: its events
  are appended, the sleep among them when a retry is left, and the loop goes on with
  the attempts that remain.
\<close>

lemma retry_loop_failed_attempt:
  assumes "pool_open s"
    and "extraction_fails cfg (w attempt chat_id model_id input_text) \<or>
         transient_failure cfg (w attempt chat_id model_id input_text)"
    and "attempt < max_retries cfg \<longrightarrow> attempt < 1024"
  shows "retry_loop rt cfg w draws chat_id input_text model_id (attempt # rest) s =
     retry_loop rt cfg w draws chat_id input_text model_id rest
       ((snd (get_executor s))\<lparr>trace := trace s @ pool_creation s @
           failed_attempt_events rt cfg draws chat_id input_text model_id attempt\<rparr>)"
proof -
  from assms(2) failed_attempt_raises [of cfg "w attempt" chat_id model_id input_text rt]
  obtain e where e: "future_result rt (Some (timeout_s cfg))
        (call_agent_blocking (w attempt) chat_id input_text model_id) = Raises e" "is_Exception e"
    by auto
  define s1 where "s1 = (snd (get_executor s))\<lparr>trace := trace s @ pool_creation s @
      [Submitted chat_id input_text model_id, Awaited (Some (timeout_s cfg))]\<rparr>"
  have tc: "try_call rt cfg (w attempt) chat_id input_text model_id s = (Raises e, s1)"
    using try_call_open [OF assms(1), of rt cfg "w attempt" chat_id input_text model_id] e(1)
    by (simp add: s1_def)
  have "fst (backoff rt cfg draws attempt s1) = None"
    using assms(3) by (auto simp: backoff_raises)
  moreover have "snd (backoff rt cfg draws attempt s1)
      = (snd (get_executor s))\<lparr>trace := trace s @ pool_creation s @
           failed_attempt_events rt cfg draws chat_id input_text model_id attempt\<rparr>"
    by (simp add: backoff_state s1_def failed_attempt_events_def)
  ultimately have "backoff rt cfg draws attempt s1
      = (None, (snd (get_executor s))\<lparr>trace := trace s @ pool_creation s @
           failed_attempt_events rt cfg draws chat_id input_text model_id attempt\<rparr>)"
    by (simp add: prod_eq_iff)
  with tc e(2) show ?thesis
    by simp
qed

text \<open>
  A failed attempt with a retry left, from attempt 1024 on: the delay computation
  raises, outside every handler, and the exception leaves the loop.
\<close>

lemma retry_loop_overflow:
  assumes "pool_open s"
    and "extraction_fails cfg (w attempt chat_id model_id input_text) \<or>
         transient_failure cfg (w attempt chat_id model_id input_text)"
    and "attempt < max_retries cfg" and "1024 \<le> attempt"
  shows "retry_loop rt cfg w draws chat_id input_text model_id (attempt # rest) s =
     (Raises int_too_large,
      (snd (get_executor s))\<lparr>trace := trace s @ pool_creation s @
         [Submitted chat_id input_text model_id, Awaited (Some (timeout_s cfg))]\<rparr>)"
proof -
  from assms(2) failed_attempt_raises [of cfg "w attempt" chat_id model_id input_text rt]
  obtain e where e: "future_result rt (Some (timeout_s cfg))
        (call_agent_blocking (w attempt) chat_id input_text model_id) = Raises e" "is_Exception e"
    by auto
  define s1 where "s1 = (snd (get_executor s))\<lparr>trace := trace s @ pool_creation s @
      [Submitted chat_id input_text model_id, Awaited (Some (timeout_s cfg))]\<rparr>"
  have tc: "try_call rt cfg (w attempt) chat_id input_text model_id s = (Raises e, s1)"
    using try_call_open [OF assms(1), of rt cfg "w attempt" chat_id input_text model_id] e(1)
    by (simp add: s1_def)
  have "backoff rt cfg draws attempt s1 = (Some int_too_large, s1)"
    using assms(3,4) by (simp add: backoff_def compute_backoff_delay_overflow)
  with tc e(2) show ?thesis
    by (simp add: s1_def)
qed

text \<open>A run of failed attempts at the head of the loop, from a state that holds a pool.\<close>

lemma retry_loop_failed_prefix:
  assumes "executor s = Some pool" and "\<not> shut_down pool"
    and "\<forall>a \<in> set as. (extraction_fails cfg (w a chat_id model_id input_text) \<or>
                         transient_failure cfg (w a chat_id model_id input_text)) \<and>
                        (a < max_retries cfg \<longrightarrow> a < 1024)"
  shows "retry_loop rt cfg w draws chat_id input_text model_id (as @ bs) s =
     retry_loop rt cfg w draws chat_id input_text model_id bs
       (s\<lparr>trace := trace s @
           concat (map (failed_attempt_events rt cfg draws chat_id input_text model_id) as)\<rparr>)"
  using assms
proof (induction as arbitrary: s)
  case Nil
  show ?case by simp
next
  case (Cons attempt rest)
  let ?evs = "failed_attempt_events rt cfg draws chat_id input_text model_id attempt"
  from Cons.prems(1,2) have op: "pool_open s" "pool_creation s = []" "snd (get_executor s) = s"
    by (simp_all add: pool_open_def pool_creation_def get_executor_def)
  from Cons.prems(3) have f: "extraction_fails cfg (w attempt chat_id model_id input_text) \<or>
      transient_failure cfg (w attempt chat_id model_id input_text)"
    and l: "attempt < max_retries cfg \<longrightarrow> attempt < 1024"
    by simp_all
  have step: "retry_loop rt cfg w draws chat_id input_text model_id ((attempt # rest) @ bs) s
      = retry_loop rt cfg w draws chat_id input_text model_id (rest @ bs) (s\<lparr>trace := trace s @ ?evs\<rparr>)"
    using retry_loop_failed_attempt [where rest = "rest @ bs" and s = s and cfg = cfg and w = w
        and attempt = attempt and chat_id = chat_id and model_id = model_id
        and input_text = input_text and rt = rt and draws = draws, OF op(1) f l] op(2,3)
    by simp
  have "retry_loop rt cfg w draws chat_id input_text model_id (rest @ bs) (s\<lparr>trace := trace s @ ?evs\<rparr>)
      = retry_loop rt cfg w draws chat_id input_text model_id bs
         ((s\<lparr>trace := trace s @ ?evs\<rparr>)\<lparr>trace := trace (s\<lparr>trace := trace s @ ?evs\<rparr>) @
           concat (map (failed_attempt_events rt cfg draws chat_id input_text model_id) rest)\<rparr>)"
    using Cons.prems by (intro Cons.IH) simp_all
  with step show ?case
    by simp
qed

lemma retry_loop_from_pool:
  assumes "as \<noteq> []"
  shows "retry_loop rt cfg w draws chat_id input_text model_id as (snd (get_executor s))
      = retry_loop rt cfg w draws chat_id input_text model_id as s"
proof -
  from assms obtain attempt rest where as: "as = attempt # rest"
    by (cases as) auto
  have "try_call rt cfg (w attempt) chat_id input_text model_id (snd (get_executor s))
      = try_call rt cfg (w attempt) chat_id input_text model_id s"
    by (simp add: try_call_def get_executor_again)
  then show ?thesis
    by (simp add: as)
qed

lemma executions_failed_attempts:
  "executions (concat (map (failed_attempt_events rt cfg draws chat_id input_text model_id) as))
     = length as"
proof (induction as)
  case Nil
  show ?case by (simp add: executions_def)
next
  case (Cons a as)
  from backoff_events_quiet [of rt cfg draws a]
  have "executions (failed_attempt_events rt cfg draws chat_id input_text model_id a) = 1"
    by (simp add: failed_attempt_events_def executions_def)
  with Cons show ?case
    by (simp add: executions_def)
qed

lemma sleeps_failed_attempts:
  assumes "\<forall>a \<in> set as. a < max_retries cfg \<longrightarrow> a < 1024"
  shows "sleeps (concat (map (failed_attempt_events rt cfg draws chat_id input_text model_id) as))
     = length (filter (\<lambda>a. a < max_retries cfg) as)"
  using assms
proof (induction as)
  case Nil
  show ?case by (simp add: sleeps_def)
next
  case (Cons a as)
  have "sleeps (failed_attempt_events rt cfg draws chat_id input_text model_id a)
      = (if a < max_retries cfg then 1 else 0)"
  proof (cases "a < max_retries cfg")
    case True
    with Cons.prems have "a < 1024"
      by simp
    with True have "backoff_events rt cfg draws a
        = [Sleep (fadd rt (raw_delay rt cfg (fround rt (2 ^ a)))
             (uniform rt 0 (fmul rt (raw_delay rt cfg (fround rt (2 ^ a))) (fround rt 0.2)) (draws a)))]"
      by (simp add: backoff_events_def compute_backoff_delay_computed)
    with True show ?thesis
      by (simp add: failed_attempt_events_def sleeps_def)
  next
    case False
    then have "backoff_events rt cfg draws a = []"
      by (simp add: backoff_events_def)
    with False show ?thesis
      by (simp add: failed_attempt_events_def sleeps_def)
  qed
  with Cons show ?case
    by (simp add: sleeps_def)
qed

lemma attempts_before_last: "length (filter (\<lambda>a. a < n) [0 ..< n + 1]) = n"
proof -
  have "filter (\<lambda>a. a < n) [0 ..< n] = [0 ..< n]"
    by (rule filter_True) simp
  then show ?thesis by simp
qed

text \<open>
  With a retry budget of at most 1024 the loop does what C6 says: when every attempt
  fails, by an extraction failure or by a transient one, a configured job makes all
  \<open>max_retries + 1\<close> submissions, sleeps the backoff after each but the last, and
  returns \<^verbatim>\<open>None\<close>; which of the two failures it was makes no difference.
\<close>

lemma failed_attempts_consume_budget:
  assumes "pool_open s" and "model_id \<noteq> ''''" and "max_retries cfg \<le> 1024"
    and "\<forall>a \<le> max_retries cfg. extraction_fails cfg (w a chat_id model_id input_text) \<or>
                               transient_failure cfg (w a chat_id model_id input_text)"
  shows "process_agent_request rt cfg w draws chat_id input_text (Some model_id) s =
           (Returns None,
            (snd (get_executor s))\<lparr>trace := trace s @ pool_creation s @
               concat (map (failed_attempt_events rt cfg draws chat_id input_text model_id)
                         [0 ..< max_retries cfg + 1])\<rparr>)"
    and "executions (emitted s (snd (process_agent_request rt cfg w draws chat_id input_text (Some model_id) s)))
           = max_retries cfg + 1"
    and "sleeps (emitted s (snd (process_agent_request rt cfg w draws chat_id input_text (Some model_id) s)))
           = max_retries cfg"
proof -
  let ?as = "[0 ..< max_retries cfg + 1]"
  let ?evs = "concat (map (failed_attempt_events rt cfg draws chat_id input_text model_id) ?as)"
  let ?s0 = "snd (get_executor s)"
  have ne: "?as \<noteq> []"
    by simp
  have f: "\<forall>a \<in> set ?as. (extraction_fails cfg (w a chat_id model_id input_text) \<or>
      transient_failure cfg (w a chat_id model_id input_text)) \<and> (a < max_retries cfg \<longrightarrow> a < 1024)"
  proof
    fix a
    assume "a \<in> set ?as"
    then have "a \<le> max_retries cfg"
      by (simp add: less_Suc_eq_le del: upt_Suc)
    with assms(3,4) show "(extraction_fails cfg (w a chat_id model_id input_text) \<or>
      transient_failure cfg (w a chat_id model_id input_text)) \<and> (a < max_retries cfg \<longrightarrow> a < 1024)"
      by auto
  qed
  from get_executor_open [OF assms(1)] get_executor_holds [of s]
  have held: "executor ?s0 = Some (fst (get_executor s))" "\<not> shut_down (fst (get_executor s))"
    by simp_all
  from retry_loop_failed_prefix [where as = ?as and bs = "[]" and w = w and chat_id = chat_id
      and model_id = model_id and input_text = input_text and cfg = cfg and rt = rt
      and draws = draws, OF held f]
  have "retry_loop rt cfg w draws chat_id input_text model_id ?as ?s0
      = (Returns None, ?s0\<lparr>trace := trace ?s0 @ ?evs\<rparr>)"
    by simp
  with retry_loop_from_pool [OF ne, of rt cfg w draws chat_id input_text model_id s]
  have "retry_loop rt cfg w draws chat_id input_text model_id ?as s
      = (Returns None, ?s0\<lparr>trace := trace s @ pool_creation s @ ?evs\<rparr>)"
    by (simp add: get_executor_trace)
  with assms(2) show run: "process_agent_request rt cfg w draws chat_id input_text (Some model_id) s =
      (Returns None, ?s0\<lparr>trace := trace s @ pool_creation s @ ?evs\<rparr>)"
    by (simp add: process_agent_request_def)
  have em: "emitted s (snd (process_agent_request rt cfg w draws chat_id input_text (Some model_id) s))
      = pool_creation s @ ?evs"
    by (rule emitted_append) (simp add: run)
  have quiet: "executions (pool_creation s) = 0" "sleeps (pool_creation s) = 0"
    by (simp_all add: executions_def sleeps_def pool_creation_def split: option.splits)
  have small: "\<forall>a \<in> set ?as. a < max_retries cfg \<longrightarrow> a < 1024"
    using assms(3) by auto
  show "executions (emitted s (snd (process_agent_request rt cfg w draws chat_id input_text (Some model_id) s)))
      = max_retries cfg + 1"
    unfolding em using quiet(1) executions_failed_attempts [of rt cfg draws chat_id input_text model_id ?as]
    by (simp add: executions_def)
  show "sleeps (emitted s (snd (process_agent_request rt cfg w draws chat_id input_text (Some model_id) s)))
      = max_retries cfg"
    unfolding em using quiet(2) sleeps_failed_attempts [where rt = rt and draws = draws and chat_id = chat_id
        and input_text = input_text and model_id = model_id, OF small]
      attempts_before_last [of "max_retries cfg"]
    by (simp add: sleeps_def)
qed

text \<open>
  Beyond that budget the loop stops early. When the attempts 0 to 1024 fail and
  retries are left after attempt 1024, the delay computation raises there: the
  dispatcher has made 1025 submissions and 1024 sleeps, and \<^verbatim>\<open>OverflowError\<close> leaves it.
\<close>

lemma failed_attempts_overflow:
  assumes "pool_open s" and "model_id \<noteq> ''''" and "1024 < max_retries cfg"
    and "\<forall>a \<le> 1024. extraction_fails cfg (w a chat_id model_id input_text) \<or>
                      transient_failure cfg (w a chat_id model_id input_text)"
  shows "fst (process_agent_request rt cfg w draws chat_id input_text (Some model_id) s)
           = Raises int_too_large"
    and "executions (emitted s (snd (process_agent_request rt cfg w draws chat_id input_text (Some model_id) s)))
           = 1025"
    and "sleeps (emitted s (snd (process_agent_request rt cfg w draws chat_id input_text (Some model_id) s)))
           = 1024"
proof -
  let ?pre = "[0 ..< 1024]"
  let ?post = "[1025 ..< max_retries cfg + 1]"
  let ?evs = "concat (map (failed_attempt_events rt cfg draws chat_id input_text model_id) ?pre)"
  let ?s0 = "snd (get_executor s)"
  let ?s1 = "?s0\<lparr>trace := trace ?s0 @ ?evs\<rparr>"
  let ?last = "[Submitted chat_id input_text model_id, Awaited (Some (timeout_s cfg))]"
  have "[0 ..< max_retries cfg + 1] = [0 ..< 1024] @ [1024 ..< max_retries cfg + 1]"
    using assms(3) upt_add_eq_append [of 0 1024 "max_retries cfg + 1 - 1024"] by simp
  moreover have "[1024 ..< max_retries cfg + 1] = 1024 # ?post"
    using assms(3) upt_conv_Cons [of 1024 "max_retries cfg + 1"] by simp
  ultimately have split: "[0 ..< max_retries cfg + 1] = ?pre @ 1024 # ?post"
    by simp
  have f: "\<forall>a \<in> set ?pre. (extraction_fails cfg (w a chat_id model_id input_text) \<or>
      transient_failure cfg (w a chat_id model_id input_text)) \<and> (a < max_retries cfg \<longrightarrow> a < 1024)"
    using assms(4) by (simp del: upt_Suc)
  from get_executor_open [OF assms(1)] get_executor_holds [of s]
  have held: "executor ?s0 = Some (fst (get_executor s))" "\<not> shut_down (fst (get_executor s))"
    and op0: "pool_open ?s0"
    by simp_all
  from retry_loop_failed_prefix [where as = ?pre and bs = "1024 # ?post" and w = w
      and chat_id = chat_id and model_id = model_id and input_text = input_text and cfg = cfg
      and rt = rt and draws = draws, OF held f]
  have pre: "retry_loop rt cfg w draws chat_id input_text model_id (?pre @ 1024 # ?post) ?s0
      = retry_loop rt cfg w draws chat_id input_text model_id (1024 # ?post) ?s1" .
  have op1: "pool_open ?s1" "pool_creation ?s1 = []" "snd (get_executor ?s1) = ?s1"
    using held by (simp_all add: pool_open_def pool_creation_def get_executor_def)
  from assms(4) have f1024: "extraction_fails cfg (w 1024 chat_id model_id input_text) \<or>
      transient_failure cfg (w 1024 chat_id model_id input_text)"
    by simp
  from retry_loop_overflow [where attempt = 1024 and rest = ?post and w = w and chat_id = chat_id
      and model_id = model_id and input_text = input_text and cfg = cfg and rt = rt
      and draws = draws, OF op1(1) f1024 assms(3)] op1(2,3)
  have last: "retry_loop rt cfg w draws chat_id input_text model_id (1024 # ?post) ?s1
      = (Raises int_too_large, ?s1\<lparr>trace := trace ?s1 @ ?last\<rparr>)"
    by simp
  have ne: "?pre @ 1024 # ?post \<noteq> []"
    by simp
  from retry_loop_from_pool [OF ne, of rt cfg w draws chat_id input_text model_id s] pre last
  have loop: "retry_loop rt cfg w draws chat_id input_text model_id (?pre @ 1024 # ?post) s
      = (Raises int_too_large, ?s1\<lparr>trace := trace ?s1 @ ?last\<rparr>)"
    by simp
  with assms(2) split
  have run: "process_agent_request rt cfg w draws chat_id input_text (Some model_id) s
      = (Raises int_too_large, ?s1\<lparr>trace := trace ?s1 @ ?last\<rparr>)"
    by (simp add: process_agent_request_def)
  then show "fst (process_agent_request rt cfg w draws chat_id input_text (Some model_id) s)
      = Raises int_too_large"
    by simp
  have em: "emitted s (snd (process_agent_request rt cfg w draws chat_id input_text (Some model_id) s))
      = pool_creation s @ ?evs @ ?last"
    by (rule emitted_append) (simp add: run get_executor_trace)
  have quiet: "executions (pool_creation s) = 0" "sleeps (pool_creation s) = 0"
    by (simp_all add: executions_def sleeps_def pool_creation_def split: option.splits)
  have small: "\<forall>a \<in> set ?pre. a < max_retries cfg \<longrightarrow> a < 1024"
    by (simp del: upt_Suc)
  have all: "filter (\<lambda>a. a < max_retries cfg) ?pre = ?pre"
    using assms(3) by (intro filter_True) (simp del: upt_Suc)
  show "executions (emitted s (snd (process_agent_request rt cfg w draws chat_id input_text (Some model_id) s)))
      = 1025"
    unfolding em using quiet(1) executions_failed_attempts [of rt cfg draws chat_id input_text model_id ?pre]
    by (simp add: executions_def del: upt_Suc)
  show "sleeps (emitted s (snd (process_agent_request rt cfg w draws chat_id input_text (Some model_id) s)))
      = 1024"
    unfolding em using quiet(2) sleeps_failed_attempts [where rt = rt and draws = draws and chat_id = chat_id
        and input_text = input_text and model_id = model_id, OF small]
      all
    by (simp add: sleeps_def del: upt_Suc)
qed

text \<open>
  C6 holds of the loop up to a budget of 1024 retries and fails beyond it, against what
  the loop sets out to do. With \<^verbatim>\<open>AGENT_MAX_RETRIES=1025\<close> and a worker whose answer
  never holds a text, the extraction failure of attempt 1024 is followed by no backoff
  and no retry: \<^verbatim>\<open>2**1024\<close> does not convert to a float, \<^verbatim>\<open>_compute_backoff_delay\<close>
  raises outside every handler, and the dispatcher raises \<^verbatim>\<open>OverflowError\<close> after 1025
  of its 1026 attempts instead of returning \<^verbatim>\<open>None\<close>.
\<close>

theorem backoff_overflow_ends_retries:
  "fst (process_agent_request exact_runtime many_retries_settings
          (always (Agent_returns 0.5 empty_then_hello)) no_jitter
          ''chat'' ''hi'' (Some ''model'') initial_state)
     = Raises (OverflowError ''int too large to convert to float'') \<and>
   executions (emitted initial_state (snd (process_agent_request exact_runtime many_retries_settings
          (always (Agent_returns 0.5 empty_then_hello)) no_jitter
          ''chat'' ''hi'' (Some ''model'') initial_state))) = 1025 \<and>
   sleeps (emitted initial_state (snd (process_agent_request exact_runtime many_retries_settings
          (always (Agent_returns 0.5 empty_then_hello)) no_jitter
          ''chat'' ''hi'' (Some ''model'') initial_state))) = 1024 \<and>
   max_retries many_retries_settings + 1 = 1026"
proof -
  have p: "pool_open initial_state"
    by (simp add: pool_open_def initial_state_def)
  have m: "''model'' \<noteq> ''''"
    by simp
  have mr: "max_retries many_retries_settings = 1025"
    by (simp add: max_retries_def many_retries_settings_def)
  then have big: "1024 < max_retries many_retries_settings"
    by simp
  have t: "timeout_s many_retries_settings = 45"
    by (simp add: timeout_s_def many_retries_settings_def default_settings_def)
  have x: "\<forall>a \<le> 1024.
      extraction_fails many_retries_settings
        (always (Agent_returns 0.5 empty_then_hello) a ''chat'' ''model'' ''hi'') \<or>
      transient_failure many_retries_settings
        (always (Agent_returns 0.5 empty_then_hello) a ''chat'' ''model'' ''hi'')"
    by (simp add: always_def t extract_final_text_def empty_then_hello_def text_block_def)
  note r = failed_attempts_overflow [where s = initial_state and cfg = many_retries_settings
       and chat_id = "''chat''" and model_id = "''model''" and input_text = "''hi''"
       and draws = no_jitter and rt = exact_runtime
       and w = "always (Agent_returns 0.5 empty_then_hello)", OF p m big x]
  from r mr show ?thesis
    by (simp add: int_too_large_def)
qed

section \<open>What leaves the dispatcher\<close>

text \<open>
  C7, as the claim states it, fails: a worker that raises an exception outside
  \<^verbatim>\<open>Exception\<close> (here \<^verbatim>\<open>SystemExit\<close>) has it stored in the future and raised again by
  the wait; neither handler of the loop catches it and it leaves the dispatcher.
\<close>

theorem non_exception_propagates:
  "fst (process_agent_request exact_runtime default_settings
          (always (Agent_raises 0.1 (NonException ''SystemExit''))) no_jitter
          ''chat'' ''hi'' (Some ''model'') initial_state)
     = Raises (NonException ''SystemExit'')"
  by code_simp

lemma future_result_outcome:
  assumes "\<forall>d e. a chat_id model_id input_text = Agent_raises d e \<longrightarrow> is_Exception e"
  shows "(\<exists>t. future_result rt (Some (timeout_s cfg))
                 (call_agent_blocking a chat_id input_text model_id) = Returns t \<and> t \<noteq> '''') \<or>
         (\<exists>e. future_result rt (Some (timeout_s cfg))
                 (call_agent_blocking a chat_id input_text model_id) = Raises e \<and> is_Exception e)"
proof (cases "timeout_max rt < timeout_s cfg")
  case True
  then show ?thesis
    by (cases "a chat_id model_id input_text")
      (simp_all add: call_agent_blocking_def timeout_too_large_def)
next
  case False
  show ?thesis
  proof (cases "a chat_id model_id input_text")
    case (Agent_returns d r)
    show ?thesis
    proof (cases "extract_final_text r")
      case (Inl e)
      with extract_final_text_error [OF Inl] Agent_returns False show ?thesis
        by (simp add: call_agent_blocking_def extraction_error_def)
    next
      case (Inr t)
      with Agent_returns extract_final_text_nonempty [OF Inr] False show ?thesis
        by (simp add: call_agent_blocking_def)
    qed
  next
    case (Agent_raises d e)
    with assms False show ?thesis
      by (simp add: call_agent_blocking_def)
  next
    case Agent_hangs
    with False show ?thesis
      by (simp add: call_agent_blocking_def)
  qed
qed

lemma try_call_outcome:
  assumes "\<forall>d e. a chat_id model_id input_text = Agent_raises d e \<longrightarrow> is_Exception e"
  shows "(\<exists>t. fst (try_call rt cfg a chat_id input_text model_id s) = Returns t \<and> t \<noteq> '''') \<or>
         (\<exists>e. fst (try_call rt cfg a chat_id input_text model_id s) = Raises e \<and> is_Exception e)"
proof -
  let ?fut = "call_agent_blocking a chat_id input_text model_id"
  have "fst (try_call rt cfg a chat_id input_text model_id s) = Raises pool_closed \<or>
      fst (try_call rt cfg a chat_id input_text model_id s) = future_result rt (Some (timeout_s cfg)) ?fut"
    by (simp add: try_call_def submit_def Let_def split: prod.splits)
  with future_result_outcome [where a = a and chat_id = chat_id and model_id = model_id
      and input_text = input_text and rt = rt and cfg = cfg, OF assms]
  show ?thesis
    by (auto simp: pool_closed_def)
qed

lemma retry_loop_returns:
  assumes "\<forall>a \<in> set as. (\<forall>d e. w a chat_id model_id input_text = Agent_raises d e \<longrightarrow> is_Exception e)
                        \<and> (a < max_retries cfg \<longrightarrow> a < 1024)"
  shows "fst (retry_loop rt cfg w draws chat_id input_text model_id as s) = Returns None \<or>
         (\<exists>t. fst (retry_loop rt cfg w draws chat_id input_text model_id as s) = Returns (Some t)
              \<and> t \<noteq> '''')"
  using assms
proof (induction as arbitrary: s)
  case Nil
  show ?case by simp
next
  case (Cons attempt rest)
  obtain r s1 where tc: "try_call rt cfg (w attempt) chat_id input_text model_id s = (r, s1)"
    by (cases "try_call rt cfg (w attempt) chat_id input_text model_id s")
  from Cons.prems have ex: "\<forall>d e. w attempt chat_id model_id input_text = Agent_raises d e \<longrightarrow> is_Exception e"
    and small: "attempt < max_retries cfg \<longrightarrow> attempt < 1024"
    by simp_all
  from try_call_outcome [where a = "w attempt" and chat_id = chat_id and model_id = model_id
      and input_text = input_text and rt = rt and cfg = cfg and s = s, OF ex] tc
  consider t where "r = Returns t" "t \<noteq> ''''" | e where "r = Raises e" "is_Exception e"
    by auto
  then show ?case
  proof cases
    case 1
    with tc show ?thesis by simp
  next
    case 2
    obtain b s2 where bo: "backoff rt cfg draws attempt s1 = (b, s2)"
      by (cases "backoff rt cfg draws attempt s1")
    with backoff_raises [of rt cfg draws attempt s1] small have b: "b = None"
      by auto
    from Cons.prems have "\<forall>a \<in> set rest.
        (\<forall>d e. w a chat_id model_id input_text = Agent_raises d e \<longrightarrow> is_Exception e)
        \<and> (a < max_retries cfg \<longrightarrow> a < 1024)"
      by simp
    from Cons.IH [OF this, of s2] tc 2 bo b show ?thesis
      by simp
  qed
qed

text \<open>
  C7, amended: for every configured job with a retry budget of at most 1024 and every
  worker whose exceptions are all below \<^verbatim>\<open>Exception\<close>, whether it raises, times out,
  hangs or answers without an extractable text, \<^verbatim>\<open>process_agent_request\<close> returns,
  with \<^verbatim>\<open>None\<close> or with an extracted, non-empty text; it raises nothing and it does not
  hang.
\<close>

theorem dispatcher_returns_normally:
  assumes "max_retries cfg \<le> 1024"
    and "\<forall>a \<le> max_retries cfg. \<forall>d e.
     w a chat_id model_id input_text = Agent_raises d e \<longrightarrow> is_Exception e"
  shows "fst (process_agent_request rt cfg w draws chat_id input_text (Some model_id) s) = Returns None \<or>
         (\<exists>t. fst (process_agent_request rt cfg w draws chat_id input_text (Some model_id) s)
                 = Returns (Some t) \<and> t \<noteq> '''')"
proof (cases "model_id = ''''")
  case True
  then show ?thesis by (simp add: process_agent_request_def)
next
  case False
  have "(\<forall>d e. w a chat_id model_id input_text = Agent_raises d e \<longrightarrow> is_Exception e)
      \<and> (a < max_retries cfg \<longrightarrow> a < 1024)"
    if "a \<in> set [0 ..< max_retries cfg + 1]" for a
  proof -
    from that have "a \<le> max_retries cfg"
      by (simp add: less_Suc_eq_le del: upt_Suc)
    with assms show ?thesis by auto
  qed
  then have "\<forall>a \<in> set [0 ..< max_retries cfg + 1].
      (\<forall>d e. w a chat_id model_id input_text = Agent_raises d e \<longrightarrow> is_Exception e)
      \<and> (a < max_retries cfg \<longrightarrow> a < 1024)"
    by blast
  from retry_loop_returns [where w = w and chat_id = chat_id and model_id = model_id
      and input_text = input_text and cfg = cfg and rt = rt and draws = draws and s = s, OF this]
    False
  show ?thesis
    by (simp add: process_agent_request_def)
qed

theorem dispatcher_returns_normally_witness:
  "fst (process_agent_request exact_runtime default_settings
          (\<lambda>attempt. if attempt = 0 then always (Agent_raises 0.1 (OtherException ''ClientError'')) attempt
                      else if attempt = 1 then always Agent_hangs attempt
                      else always (Agent_returns 0.5 empty_then_hello) attempt)
          no_jitter ''chat'' ''hi'' (Some ''model'') initial_state)
     = Returns None"
proof -
  let ?w = "\<lambda>attempt. if attempt = 0 then always (Agent_raises 0.1 (OtherException ''ClientError'')) attempt
                      else if attempt = 1 then always Agent_hangs attempt
                      else always (Agent_returns 0.5 empty_then_hello) attempt"
  have b: "max_retries default_settings \<le> 1024"
    by (simp add: max_retries_def default_settings_def)
  have h: "\<forall>a \<le> max_retries default_settings. \<forall>d e.
      ?w a ''chat'' ''model'' ''hi'' = Agent_raises d e \<longrightarrow> is_Exception e"
    by (simp add: always_def)
  have run: "fst (process_agent_request exact_runtime default_settings ?w no_jitter ''chat'' ''hi''
      (Some ''model'') initial_state) = Returns None"
    by code_simp
  from dispatcher_returns_normally [where w = ?w and chat_id = "''chat''" and model_id = "''model''"
      and input_text = "''hi''" and cfg = default_settings and rt = exact_runtime
      and draws = no_jitter and s = initial_state, OF b h] run
  show ?thesis
    by simp
qed

end
